theory Spec2Isabelle
  imports Main "HOL-Library.Word" "HOL-Library.AList"
begin

section \<open>JavaScript strings\<close>

text \<open>
  A JavaScript string is a sequence of 16-bit code units; \<open>length\<close>, \<open>slice\<close>,
  \<open>indexOf\<close>, \<open>startsWith\<close> and \<open>split\<close> all count code units. The model keeps that
  alphabet: a string is a list of 16-bit words, and \<open>str\<close> embeds an ASCII literal.
\<close>

type_synonym jschar = "16 word"
type_synonym jsstring = "jschar list"

definition cu :: "char \<Rightarrow> jschar" where
  "cu c = of_nat (of_char c)"

definition str :: "string \<Rightarrow> jsstring" where
  "str s = map cu s"

text \<open>
  \<open>String.prototype.trim\<close> removes WhiteSpace and LineTerminator code points from both
  ends (ECMAScript, TrimString). All of them lie in the basic plane.
\<close>

definition isWhiteSpace :: "jschar \<Rightarrow> bool" where
  "isWhiteSpace c =
     (c = 0x9 \<or> c = 0xA \<or> c = 0xB \<or> c = 0xC \<or> c = 0xD \<or> c = 0x20 \<or> c = 0xA0 \<or>
      c = 0x1680 \<or> (0x2000 \<le> c \<and> c \<le> 0x200A) \<or> c = 0x2028 \<or> c = 0x2029 \<or>
      c = 0x202F \<or> c = 0x205F \<or> c = 0x3000 \<or> c = 0xFEFF)"

definition trimStart :: "jsstring \<Rightarrow> jsstring" where
  "trimStart s = dropWhile isWhiteSpace s"

definition trim :: "jsstring \<Rightarrow> jsstring" where
  "trim s = rev (dropWhile isWhiteSpace (rev (dropWhile isWhiteSpace s)))"

definition startsWith :: "jsstring \<Rightarrow> jsstring \<Rightarrow> bool" where
  "startsWith s p = (take (length p) s = p)"

text \<open>\<open>s.includes(c)\<close> for a one-unit needle.\<close>

definition js_includes :: "jsstring \<Rightarrow> jschar \<Rightarrow> bool" where
  "js_includes s c = (c \<in> set s)"

text \<open>
  \<open>s.indexOf(c)\<close> and \<open>s.lastIndexOf(c)\<close> for a one-unit needle; the source's \<open>-1\<close> is
  \<open>None\<close>.
\<close>

fun indexOf :: "jsstring \<Rightarrow> jschar \<Rightarrow> nat option" where
  "indexOf [] c = None"
| "indexOf (x # xs) c = (if x = c then Some 0 else map_option Suc (indexOf xs c))"

fun lastIndexOf :: "jsstring \<Rightarrow> jschar \<Rightarrow> nat option" where
  "lastIndexOf [] c = None"
| "lastIndexOf (x # xs) c =
     (case lastIndexOf xs c of
        Some i \<Rightarrow> Some (Suc i)
      | None \<Rightarrow> (if x = c then Some 0 else None))"

text \<open>\<open>s.slice(a, b)\<close> and \<open>s.slice(a)\<close> for indices that are not negative.\<close>

definition slice :: "jsstring \<Rightarrow> nat \<Rightarrow> nat \<Rightarrow> jsstring" where
  "slice s a b = take (b - a) (drop a s)"

definition sliceFrom :: "jsstring \<Rightarrow> nat \<Rightarrow> jsstring" where
  "sliceFrom s a = drop a s"

text \<open>
  \<open>s.split(c)\<close> for a one-unit separator: the pieces between the separators, at least one
  piece (the empty string splits into one empty piece).
\<close>

fun js_split :: "jschar \<Rightarrow> jsstring \<Rightarrow> jsstring list" where
  "js_split c [] = [[]]"
| "js_split c (x # xs) =
     (if x = c then [] # js_split c xs
      else (case js_split c xs of
              p # ps \<Rightarrow> (x # p) # ps
            | [] \<Rightarrow> [[x]]))"

text \<open>
  Array destructuring \<open>const [a, b] = parts\<close>: the first element, and the second one when
  there is one (\<open>undefined\<close> otherwise).
\<close>

definition first_part :: "jsstring list \<Rightarrow> jsstring" where
  "first_part ps = (case ps of [] \<Rightarrow> [] | p # _ \<Rightarrow> p)"

definition second_part :: "jsstring list \<Rightarrow> jsstring option" where
  "second_part ps = (case ps of _ # q # _ \<Rightarrow> Some q | _ \<Rightarrow> None)"

text \<open>
  \<open>String.prototype.toLowerCase\<close>. The program compares lower-cased text with ASCII
  literals only. The code points whose lower case contains an ASCII letter are the
  ASCII capitals, the Kelvin sign U+212A (lower case \<open>k\<close>) and U+0130 (lower case
  \<open>i\<close> followed by U+0307); every other code point maps to text without ASCII letters and
  is kept as it is here.
\<close>

definition lowerUnit :: "jschar \<Rightarrow> jsstring" where
  "lowerUnit c =
     (if 0x41 \<le> c \<and> c \<le> 0x5A then [c + 0x20]
      else if c = 0x212A then [0x6B]
      else if c = 0x130 then [0x69, 0x307]
      else [c])"

definition toLowerCase :: "jsstring \<Rightarrow> jsstring" where
  "toLowerCase s = concat (map lowerUnit s)"

text \<open>Truthiness of a string (\<open>!s\<close> is true for the empty string) and of an optional one.\<close>

definition truthy :: "jsstring option \<Rightarrow> bool" where
  "truthy v = (case v of None \<Rightarrow> False | Some s \<Rightarrow> s \<noteq> [])"

text \<open>\<open>a || b\<close> on an optional string and a string.\<close>

definition orElse :: "jsstring option \<Rightarrow> jsstring \<Rightarrow> jsstring" where
  "orElse v d = (case v of None \<Rightarrow> d | Some s \<Rightarrow> if s = [] then d else s)"

text \<open>\<open>a || b\<close> on two optional strings (\<open>null\<close> and \<open>undefined\<close> are \<open>None\<close>).\<close>

definition orOpt :: "jsstring option \<Rightarrow> jsstring option \<Rightarrow> jsstring option" where
  "orOpt v w = (if truthy v then v else w)"

subsection \<open>Numbers\<close>

text \<open>
  \<open>parseInt(s, 10)\<close>: leading white space is skipped, then an optional sign, then the
  longest run of decimal digits; no digit gives \<open>NaN\<close>. The result is an integer
  (the program compares it and stores it; values beyond \<open>2^53\<close>, which a double rounds,
  are kept exact here).
\<close>

datatype number = Num int | NaN

definition isDigit :: "jschar \<Rightarrow> bool" where
  "isDigit c = (0x30 \<le> c \<and> c \<le> 0x39)"

fun digitsValue :: "int \<Rightarrow> jsstring \<Rightarrow> int" where
  "digitsValue acc [] = acc"
| "digitsValue acc (c # cs) = digitsValue (acc * 10 + (uint c - 0x30)) cs"

definition parseDigits :: "jsstring \<Rightarrow> int option" where
  "parseDigits s =
     (let ds = takeWhile isDigit s
      in if ds = [] then None else Some (digitsValue 0 ds))"

definition parseInt :: "jsstring \<Rightarrow> number" where
  "parseInt s =
     (let t = trimStart s
      in case t of
           [] \<Rightarrow> NaN
         | c # cs \<Rightarrow>
             if c = 0x2D then (case parseDigits cs of None \<Rightarrow> NaN | Some n \<Rightarrow> Num (- n))
             else if c = 0x2B then (case parseDigits cs of None \<Rightarrow> NaN | Some n \<Rightarrow> Num n)
             else (case parseDigits t of None \<Rightarrow> NaN | Some n \<Rightarrow> Num n))"

text \<open>The decimal text of an integer, as a template literal prints it.\<close>

fun natDigits :: "nat \<Rightarrow> jsstring" where
  "natDigits n =
     (if n < 10 then [0x30 + of_nat n]
      else natDigits (n div 10) @ [0x30 + of_nat (n mod 10)])"

declare natDigits.simps [simp del]

definition numberToString :: "int \<Rightarrow> jsstring" where
  "numberToString i = (if i < 0 then 0x2D # natDigits (nat (- i)) else natDigits (nat i))"

section \<open>Library functions of the runtime\<close>

subsection \<open>UTF-8 and UTF-16\<close>

text \<open>
  Code points and bytes are natural numbers here. \<open>toUTF16\<close> is CodePointToUTF16CodeUnits;
  \<open>toCodePoints\<close> is the conversion of a string to scalar values (a surrogate without its
  partner becomes U+FFFD), which every \<open>USVString\<close> argument goes through; \<open>utf8Encode\<close>
  is the UTF-8 encoder.
\<close>

definition toUTF16 :: "nat \<Rightarrow> jsstring" where
  "toUTF16 cp =
     (if cp < 0x10000 then [of_nat cp]
      else [of_nat (0xD800 + (cp - 0x10000) div 0x400), of_nat (0xDC00 + (cp - 0x10000) mod 0x400)])"

definition isHighSurrogate :: "jschar \<Rightarrow> bool" where
  "isHighSurrogate c = (0xD800 \<le> c \<and> c \<le> 0xDBFF)"

definition isLowSurrogate :: "jschar \<Rightarrow> bool" where
  "isLowSurrogate c = (0xDC00 \<le> c \<and> c \<le> 0xDFFF)"

fun toCodePoints :: "jsstring \<Rightarrow> nat list" where
  "toCodePoints [] = []"
| "toCodePoints [c] = (if isHighSurrogate c \<or> isLowSurrogate c then [0xFFFD] else [unat c])"
| "toCodePoints (c # d # ds) =
     (if isHighSurrogate c \<and> isLowSurrogate d
      then (0x10000 + (unat c - 0xD800) * 0x400 + (unat d - 0xDC00)) # toCodePoints ds
      else if isHighSurrogate c \<or> isLowSurrogate c then 0xFFFD # toCodePoints (d # ds)
      else unat c # toCodePoints (d # ds))"

definition utf8EncodeCodePoint :: "nat \<Rightarrow> nat list" where
  "utf8EncodeCodePoint cp =
     (if cp < 0x80 then [cp]
      else if cp < 0x800 then [0xC0 + cp div 0x40, 0x80 + cp mod 0x40]
      else if cp < 0x10000
      then [0xE0 + cp div 0x1000, 0x80 + (cp div 0x40) mod 0x40, 0x80 + cp mod 0x40]
      else [0xF0 + cp div 0x40000, 0x80 + (cp div 0x1000) mod 0x40,
            0x80 + (cp div 0x40) mod 0x40, 0x80 + cp mod 0x40])"

definition utf8Encode :: "jsstring \<Rightarrow> nat list" where
  "utf8Encode s = concat (map utf8EncodeCodePoint (toCodePoints s))"

text \<open>
  The UTF-8 decoder of the Encoding standard, with replacement as its error mode. The
  state is the code point so far, the number of bytes still needed and the bounds of the
  next byte. A byte that cannot continue a sequence gives U+FFFD and is read again as the
  start of a new one.
\<close>

record Utf8State =
  codePoint :: nat
  bytesNeeded :: nat
  lowerBoundary :: nat
  upperBoundary :: nat

definition utf8Init :: Utf8State where
  "utf8Init = \<lparr>codePoint = 0, bytesNeeded = 0, lowerBoundary = 0x80, upperBoundary = 0xBF\<rparr>"

function utf8Decode :: "Utf8State \<Rightarrow> nat list \<Rightarrow> nat list" where
  "utf8Decode st [] = (if bytesNeeded st \<noteq> 0 then [0xFFFD] else [])"
| "utf8Decode st (b # bs) =
     (if bytesNeeded st = 0 then
        (if b \<le> 0x7F then b # utf8Decode utf8Init bs
         else if 0xC2 \<le> b \<and> b \<le> 0xDF
         then utf8Decode (utf8Init\<lparr>codePoint := b - 0xC0, bytesNeeded := 1\<rparr>) bs
         else if 0xE0 \<le> b \<and> b \<le> 0xEF
         then utf8Decode \<lparr>codePoint = b - 0xE0, bytesNeeded = 2,
                lowerBoundary = (if b = 0xE0 then 0xA0 else 0x80),
                upperBoundary = (if b = 0xED then 0x9F else 0xBF)\<rparr> bs
         else if 0xF0 \<le> b \<and> b \<le> 0xF4
         then utf8Decode \<lparr>codePoint = b - 0xF0, bytesNeeded = 3,
                lowerBoundary = (if b = 0xF0 then 0x90 else 0x80),
                upperBoundary = (if b = 0xF4 then 0x8F else 0xBF)\<rparr> bs
         else 0xFFFD # utf8Decode utf8Init bs)
      else if b < lowerBoundary st \<or> upperBoundary st < b
      then 0xFFFD # utf8Decode utf8Init (b # bs)
      else
        (let cp = codePoint st * 0x40 + (b - 0x80)
         in if bytesNeeded st = 1 then cp # utf8Decode utf8Init bs
            else utf8Decode \<lparr>codePoint = cp, bytesNeeded = bytesNeeded st - 1,
                   lowerBoundary = 0x80, upperBoundary = 0xBF\<rparr> bs))"
  by pat_completeness auto
termination
  by (relation "measure (\<lambda>(st, bs). 2 * length bs + (if bytesNeeded st = 0 then 0 else 1))")
     (auto simp: utf8Init_def)

declare utf8Decode.simps [simp del]

definition utf8DecodeString :: "nat list \<Rightarrow> jsstring" where
  "utf8DecodeString bs = concat (map toUTF16 (utf8Decode utf8Init bs))"

subsection \<open>Percent escapes\<close>

definition hexValue :: "nat \<Rightarrow> nat option" where
  "hexValue c =
     (if 0x30 \<le> c \<and> c \<le> 0x39 then Some (c - 0x30)
      else if 0x41 \<le> c \<and> c \<le> 0x46 then Some (c - 0x41 + 10)
      else if 0x61 \<le> c \<and> c \<le> 0x66 then Some (c - 0x61 + 10)
      else None)"

definition hexOctet :: "nat \<Rightarrow> nat \<Rightarrow> nat option" where
  "hexOctet a b =
     (case (hexValue a, hexValue b) of (Some x, Some y) \<Rightarrow> Some (16 * x + y) | _ \<Rightarrow> None)"

text \<open>
  \<open>decodeURIComponent\<close> (ECMAScript, Decode with no preserved escapes). Every \<open>%\<close> must
  start an escape of two hexadecimal digits; an escaped byte below \<open>0x80\<close> is a unit, any
  other must begin a well-formed UTF-8 sequence made of escapes only. Anything else throws
  a \<open>URIError\<close>, which is \<open>None\<close> here. The text is first cut into units and escapes.
\<close>

datatype token = Lit jschar | Esc nat

fun uriTokens :: "jsstring \<Rightarrow> token list option" where
  "uriTokens [] = Some []"
| "uriTokens (c # a # b # rest) =
     (if c = cu CHR ''%'' then
        (case hexOctet (unat a) (unat b) of
           None \<Rightarrow> None
         | Some v \<Rightarrow> map_option ((#) (Esc v)) (uriTokens rest))
      else map_option ((#) (Lit c)) (uriTokens (a # b # rest)))"
| "uriTokens (c # cs) =
     (if c = cu CHR ''%'' then None else map_option ((#) (Lit c)) (uriTokens cs))"

text \<open>
  The continuation bytes that follow the leading byte \<open>b\<close>: their number, and the code
  point when the sequence is well formed (no overlong form, no surrogate, at most U+10FFFF).
\<close>

definition isCont :: "token \<Rightarrow> nat \<Rightarrow> nat \<Rightarrow> bool" where
  "isCont t lo hi = (case t of Esc v \<Rightarrow> lo \<le> v \<and> v \<le> hi | Lit _ \<Rightarrow> False)"

definition contBits :: "token \<Rightarrow> nat" where
  "contBits t = (case t of Esc v \<Rightarrow> v - 0x80 | Lit _ \<Rightarrow> 0)"

definition utf8Sequence :: "nat \<Rightarrow> token list \<Rightarrow> (nat \<times> nat) option" where
  "utf8Sequence b ts =
     (if 0xC2 \<le> b \<and> b \<le> 0xDF then
        (case ts of
           t1 # _ \<Rightarrow>
             if isCont t1 0x80 0xBF then Some ((b - 0xC0) * 0x40 + contBits t1, 1) else None
         | _ \<Rightarrow> None)
      else if 0xE0 \<le> b \<and> b \<le> 0xEF then
        (case ts of
           t1 # t2 # _ \<Rightarrow>
             if isCont t1 (if b = 0xE0 then 0xA0 else 0x80) (if b = 0xED then 0x9F else 0xBF) \<and>
                isCont t2 0x80 0xBF
             then Some ((b - 0xE0) * 0x1000 + contBits t1 * 0x40 + contBits t2, 2) else None
         | _ \<Rightarrow> None)
      else if 0xF0 \<le> b \<and> b \<le> 0xF4 then
        (case ts of
           t1 # t2 # t3 # _ \<Rightarrow>
             if isCont t1 (if b = 0xF0 then 0x90 else 0x80) (if b = 0xF4 then 0x8F else 0xBF) \<and>
                isCont t2 0x80 0xBF \<and> isCont t3 0x80 0xBF
             then Some ((b - 0xF0) * 0x40000 + contBits t1 * 0x1000 + contBits t2 * 0x40 +
                        contBits t3, 3)
             else None
         | _ \<Rightarrow> None)
      else None)"

function decodeTokens :: "token list \<Rightarrow> jsstring option" where
  "decodeTokens [] = Some []"
| "decodeTokens (Lit c # ts) = map_option ((#) c) (decodeTokens ts)"
| "decodeTokens (Esc b # ts) =
     (if b < 0x80 then map_option ((#) (of_nat b)) (decodeTokens ts)
      else (case utf8Sequence b ts of
              None \<Rightarrow> None
            | Some (cp, k) \<Rightarrow> map_option ((@) (toUTF16 cp)) (decodeTokens (drop k ts))))"
  by pat_completeness auto
termination
  by (relation "measure length") auto

definition decodeURIComponent :: "jsstring \<Rightarrow> jsstring option" where
  "decodeURIComponent s = (case uriTokens s of None \<Rightarrow> None | Some ts \<Rightarrow> decodeTokens ts)"

text \<open>The message of the \<open>URIError\<close> (V8's wording).\<close>

definition uriErrorMessage :: jsstring where
  "uriErrorMessage = str ''URI malformed''"

text \<open>
  Percent-decoding of the URL standard, on bytes: a \<open>%\<close> that two hexadecimal digits do
  not follow stays as it is.
\<close>

fun percentDecode :: "nat list \<Rightarrow> nat list" where
  "percentDecode (c # a # b # rest) =
     (if c = 0x25 then
        (case hexOctet a b of
           Some v \<Rightarrow> v # percentDecode rest
         | None \<Rightarrow> c # percentDecode (a # b # rest))
      else c # percentDecode (a # b # rest))"
| "percentDecode (c # cs) = c # percentDecode cs"
| "percentDecode [] = []"

subsection \<open>URLSearchParams\<close>

text \<open>
  \<open>new URLSearchParams(init)\<close> for a string: one leading \<open>?\<close> is dropped, the text is
  UTF-8 encoded and parsed as \<open>application/x-www-form-urlencoded\<close>: split at \<open>&\<close>, empty
  pieces skipped, each piece split at its first \<open>=\<close>, \<open>+\<close> replaced by a space, both halves
  percent-decoded and UTF-8 decoded. \<open>get\<close> returns the first value of a name.
\<close>

type_synonym URLSearchParams = "(jsstring \<times> jsstring) list"

fun splitBytes :: "nat \<Rightarrow> nat list \<Rightarrow> nat list list" where
  "splitBytes c [] = [[]]"
| "splitBytes c (x # xs) =
     (if x = c then [] # splitBytes c xs
      else (case splitBytes c xs of
              p # ps \<Rightarrow> (x # p) # ps
            | [] \<Rightarrow> [[x]]))"

definition formComponent :: "nat list \<Rightarrow> jsstring" where
  "formComponent bs =
     utf8DecodeString (percentDecode (map (\<lambda>b. if b = 0x2B then 0x20 else b) bs))"

definition formPair :: "nat list \<Rightarrow> jsstring \<times> jsstring" where
  "formPair bs =
     (let name = takeWhile (\<lambda>b. b \<noteq> 0x3D) bs;
          val = drop (length name + 1) bs
      in (formComponent name, formComponent val))"

definition newURLSearchParams :: "jsstring \<Rightarrow> URLSearchParams" where
  "newURLSearchParams init =
     (let s = (if startsWith init (str ''?'') then sliceFrom init 1 else init)
      in map formPair (filter (\<lambda>bs. bs \<noteq> []) (splitBytes 0x26 (utf8Encode s))))"

definition params_get :: "URLSearchParams \<Rightarrow> string \<Rightarrow> jsstring option" where
  "params_get params name = map_of params (str name)"

section \<open>The VPN-config decoder (awg.ts)\<close>

text \<open>
  \<open>normalizeAddress\<close>: an address with a mask is kept, one with a colon gets \<open>/128\<close>, any
  other gets \<open>/32\<close>; the text is trimmed first.
\<close>

definition normalizeAddress :: "jsstring \<Rightarrow> jsstring" where
  "normalizeAddress addr =
     (let trimmed = trim addr
      in if js_includes trimmed (cu CHR ''/'') then trimmed
         else if js_includes trimmed (cu CHR '':'') then trimmed @ str ''/128''
         else trimmed @ str ''/32'')"

text \<open>\<open>parseCommaSeparated\<close>: split on commas, trim every piece, drop the empty ones.\<close>

definition parseCommaSeparated :: "jsstring \<Rightarrow> jsstring list" where
  "parseCommaSeparated v =
     filter (\<lambda>s. length s > 0) (map trim (js_split (cu CHR '','') v))"

text \<open>
  A parsed section is a plain object with string values: its own properties in insertion
  order. Assigning a string to \<open>__proto__\<close> runs the inherited setter, which ignores
  values that are not objects, so no property is created. \<open>Object.prototype\<close> has no
  property named like a key the decoder reads, so reading a key is a lookup among the own
  properties.
\<close>

type_synonym ParsedSection = "(jsstring \<times> jsstring) list"

definition setProp :: "ParsedSection \<Rightarrow> jsstring \<Rightarrow> jsstring \<Rightarrow> ParsedSection" where
  "setProp obj k v = (if k = str ''__proto__'' then obj else AList.update k v obj)"

definition getProp :: "ParsedSection \<Rightarrow> jsstring \<Rightarrow> jsstring option" where
  "getProp obj k = map_of obj k"

text \<open>\<open>Object.keys(obj).length\<close>.\<close>

definition keysLength :: "ParsedSection \<Rightarrow> nat" where
  "keysLength obj = length obj"

text \<open>
  \<open>value.match(/<([^>]+)>/)\<close>: the leftmost \<open><\<close> that is followed by at least one unit
  other than \<open>>\<close> and then by \<open>>\<close>; the capture is the run between them.
\<close>

fun angleMatch :: "jsstring \<Rightarrow> jsstring option" where
  "angleMatch [] = None"
| "angleMatch (c # cs) =
     (if c = cu CHR ''<'' then
        (let run = takeWhile (\<lambda>x. x \<noteq> cu CHR ''>'') cs
         in if run \<noteq> [] \<and> length run < length cs then Some run else angleMatch cs)
      else angleMatch cs)"

text \<open>\<open>parseLine\<close>: a \<open>key = value\<close> line; blank lines, comments and lines without \<open>=\<close> give \<open>null\<close>.\<close>

definition parseLine :: "jsstring \<Rightarrow> (jsstring \<times> jsstring) option" where
  "parseLine line =
     (let trimmed = trim line
      in if trimmed = [] \<or> startsWith trimmed (str ''#'') \<or> startsWith trimmed (str ''//'')
         then None
         else (case indexOf trimmed (cu CHR ''='') of
                 None \<Rightarrow> None
               | Some eqIndex \<Rightarrow>
                   (let key = trim (slice trimmed 0 eqIndex);
                        value = trim (sliceFrom trimmed (eqIndex + 1));
                        value' =
                          (if startsWith value (str ''<'') \<and> js_includes value (cu CHR ''>'')
                           then (case angleMatch value of
                                   Some m \<Rightarrow> trim m
                                 | None \<Rightarrow> value)
                           else value)
                    in Some (key, value'))))"

text \<open>
  \<open>content.replace(/^\ufeff/, '').replace(/\r\n/g, '\n').replace(/\r/g, '\n')\<close>: one
  leading byte-order mark goes, then every line ending becomes a line feed.
\<close>

definition stripBOM :: "jsstring \<Rightarrow> jsstring" where
  "stripBOM s = (case s of [] \<Rightarrow> [] | c # cs \<Rightarrow> if c = 0xFEFF then cs else s)"

fun replaceCRLF :: "jsstring \<Rightarrow> jsstring" where
  "replaceCRLF (c # d # cs) =
     (if c = 0xD \<and> d = 0xA then 0xA # replaceCRLF cs else c # replaceCRLF (d # cs))"
| "replaceCRLF cs = cs"

definition replaceCR :: "jsstring \<Rightarrow> jsstring" where
  "replaceCR s = map (\<lambda>c. if c = 0xD then 0xA else c) s"

definition cleanContent :: "jsstring \<Rightarrow> jsstring" where
  "cleanContent content = replaceCR (replaceCRLF (stripBOM content))"

text \<open>\<open>parseSections\<close>: the loop over the lines, with its four variables as the state.\<close>

datatype Section = SecNone | SecInterface | SecPeer

record SectionsState =
  res_interface :: ParsedSection
  res_peers :: "ParsedSection list"
  currentSection :: Section
  currentPeer :: ParsedSection

definition sectionsInit :: SectionsState where
  "sectionsInit =
     \<lparr>res_interface = [], res_peers = [], currentSection = SecNone, currentPeer = []\<rparr>"

text \<open>\<open>if (currentSection === "peer" && Object.keys(currentPeer).length > 0) peers.push(currentPeer)\<close>.\<close>

definition flushPeer :: "SectionsState \<Rightarrow> ParsedSection list" where
  "flushPeer st =
     (if currentSection st = SecPeer \<and> keysLength (currentPeer st) > 0
      then res_peers st @ [currentPeer st] else res_peers st)"

definition sectionsStep :: "SectionsState \<Rightarrow> jsstring \<Rightarrow> SectionsState" where
  "sectionsStep st line =
     (let trimmed = trim line
      in if toLowerCase trimmed = str ''[interface]'' then st\<lparr>currentSection := SecInterface\<rparr>
         else if toLowerCase trimmed = str ''[peer]''
         then st\<lparr>res_peers := flushPeer st, currentSection := SecPeer, currentPeer := []\<rparr>
         else (case parseLine trimmed of
                 None \<Rightarrow> st
               | Some (key, value) \<Rightarrow>
                   (let keyLower = toLowerCase key
                    in if currentSection st = SecInterface
                       then st\<lparr>res_interface := setProp (res_interface st) keyLower value\<rparr>
                       else if currentSection st = SecPeer
                       then st\<lparr>currentPeer := setProp (currentPeer st) keyLower value\<rparr>
                       else st)))"

definition confLines :: "jsstring \<Rightarrow> jsstring list" where
  "confLines content = js_split 0xA (cleanContent content)"

definition parseSections :: "jsstring \<Rightarrow> ParsedSection \<times> ParsedSection list" where
  "parseSections content =
     (let st = foldl sectionsStep sectionsInit (confLines content)
      in (res_interface st, flushPeer st))"

text \<open>
  \<open>parseEndpoint\<close>. The pattern \<open>/^\[([^\]]+)\]:(\d+)$/\<close> asks for \<open>[\<close>, a non-empty run
  without \<open>]\<close>, then \<open>]:\<close> and decimal digits up to the end; any other text is split at its
  last colon.
\<close>

definition ipv6Match :: "jsstring \<Rightarrow> (jsstring \<times> jsstring) option" where
  "ipv6Match endpoint =
     (case endpoint of
        [] \<Rightarrow> None
      | c # cs \<Rightarrow>
          if c \<noteq> cu CHR ''['' then None
          else (let run = takeWhile (\<lambda>x. x \<noteq> cu CHR '']'') cs;
                    after = drop (length run) cs;
                    digits = drop 2 after
                in if run \<noteq> [] \<and> startsWith after (str '']:'') \<and> digits \<noteq> [] \<and>
                      list_all isDigit digits
                   then Some (run, digits) else None))"

definition parseEndpoint :: "jsstring \<Rightarrow> (jsstring \<times> int) option" where
  "parseEndpoint endpoint =
     (case ipv6Match endpoint of
        Some (host, digits) \<Rightarrow>
          (case parseInt digits of Num p \<Rightarrow> Some (host, p) | NaN \<Rightarrow> None)
      | None \<Rightarrow>
          (case lastIndexOf endpoint (cu CHR '':'') of
             None \<Rightarrow> None
           | Some lastColon \<Rightarrow>
               (case parseInt (sliceFrom endpoint (lastColon + 1)) of
                  NaN \<Rightarrow> None
                | Num p \<Rightarrow> Some (slice endpoint 0 lastColon, p))))"

record AwgPeer =
  address :: jsstring
  port :: int
  public_key :: jsstring
  preshared_key :: "jsstring option"
  allowed_ips :: "jsstring list"
  persistent_keepalive_interval :: "int option"

record AwgEndpoint =
  type :: jsstring
  tag :: jsstring
  useIntegratedTun :: "bool option"
  private_key :: jsstring
  address :: "jsstring list"
  mtu :: "int option"
  listen_port :: "int option"
  jc :: "int option"
  jmin :: "int option"
  jmax :: "int option"
  s1 :: "int option"
  s2 :: "int option"
  s3 :: "int option"
  s4 :: "int option"
  h1 :: "jsstring option"
  h2 :: "jsstring option"
  h3 :: "jsstring option"
  h4 :: "jsstring option"
  i1 :: "jsstring option"
  i2 :: "jsstring option"
  i3 :: "jsstring option"
  i4 :: "jsstring option"
  i5 :: "jsstring option"
  peers :: "AwgPeer list"

record AwgParseResult =
  success :: bool
  endpoint :: "AwgEndpoint option"
  errors :: "jsstring list"

text \<open>
  \<open>if (v) { const n = parseInt(v, 10); if (!isNaN(n)) field = n; }\<close>, the source's pattern
  for every numeric key, and \<open>if (v) field = v\<close> for every text key.
\<close>

definition intField :: "jsstring option \<Rightarrow> int option" where
  "intField v =
     (case v of
        None \<Rightarrow> None
      | Some s \<Rightarrow> if s = [] then None else (case parseInt s of Num n \<Rightarrow> Some n | NaN \<Rightarrow> None))"

definition strField :: "jsstring option \<Rightarrow> jsstring option" where
  "strField v = (if truthy v then v else None)"

text \<open>The loop over the peer sections: \<open>i\<close> is the index, the state the peers and errors so far.\<close>

definition peerMessage :: "nat \<Rightarrow> string \<Rightarrow> jsstring" where
  "peerMessage i m = str ''Peer '' @ numberToString (int i + 1) @ str '': '' @ str m"

fun peersLoop :: "nat \<Rightarrow> ParsedSection list \<Rightarrow> AwgPeer list \<times> jsstring list \<Rightarrow>
    AwgPeer list \<times> jsstring list" where
  "peersLoop i [] acc = acc"
| "peersLoop i (peerData # rest) (ps, errs) =
     (if \<not> truthy (getProp peerData (str ''publickey''))
      then peersLoop (i + 1) rest (ps, errs @ [peerMessage i ''PublicKey is required''])
      else if \<not> truthy (getProp peerData (str ''endpoint''))
      then peersLoop (i + 1) rest (ps, errs @ [peerMessage i ''Endpoint is required''])
      else (case parseEndpoint (the (getProp peerData (str ''endpoint''))) of
              None \<Rightarrow> peersLoop (i + 1) rest (ps, errs @ [peerMessage i ''Invalid Endpoint format''])
            | Some (a, p) \<Rightarrow>
                peersLoop (i + 1) rest
                  (ps @ [\<lparr>AwgPeer.address = a, port = p,
                          public_key = the (getProp peerData (str ''publickey'')),
                          preshared_key = strField (getProp peerData (str ''presharedkey'')),
                          allowed_ips =
                            (case strField (getProp peerData (str ''allowedips'')) of
                               None \<Rightarrow> []
                             | Some v \<Rightarrow> parseCommaSeparated v),
                          persistent_keepalive_interval =
                            intField (getProp peerData (str ''persistentkeepalive''))\<rparr>],
                   errs)))"

definition awgFailure :: "jsstring list \<Rightarrow> AwgParseResult" where
  "awgFailure errs = \<lparr>AwgParseResult.success = False, endpoint = None, errors = errs\<rparr>"

definition parseAwgConfig :: "jsstring \<Rightarrow> AwgParseResult" where
  "parseAwgConfig confContent =
     (let sections = parseSections confContent;
          iface = fst sections
      in if keysLength iface = 0 then awgFailure [str ''No [Interface] section found'']
         else if \<not> truthy (getProp iface (str ''privatekey''))
         then awgFailure [str ''PrivateKey is required in [Interface] section'']
         else if length (snd sections) = 0 then awgFailure [str ''No [Peer] section found'']
         else
           (let (ps, errs) = peersLoop 0 (snd sections) ([], []);
                ep = \<lparr>AwgEndpoint.type = str ''awg'',
                      tag = str ''awg-endpoint'',
                      useIntegratedTun = Some False,
                      private_key = the (getProp iface (str ''privatekey'')),
                      address =
                        (case strField (getProp iface (str ''address'')) of
                           None \<Rightarrow> []
                         | Some v \<Rightarrow> map normalizeAddress (parseCommaSeparated v)),
                      mtu = intField (getProp iface (str ''mtu'')),
                      listen_port = intField (getProp iface (str ''listenport'')),
                      jc = intField (getProp iface (str ''jc'')),
                      jmin = intField (getProp iface (str ''jmin'')),
                      jmax = intField (getProp iface (str ''jmax'')),
                      s1 = intField (getProp iface (str ''s1'')),
                      s2 = intField (getProp iface (str ''s2'')),
                      s3 = intField (getProp iface (str ''s3'')),
                      s4 = intField (getProp iface (str ''s4'')),
                      h1 = strField (getProp iface (str ''h1'')),
                      h2 = strField (getProp iface (str ''h2'')),
                      h3 = strField (getProp iface (str ''h3'')),
                      h4 = strField (getProp iface (str ''h4'')),
                      i1 = strField (getProp iface (str ''i1'')),
                      i2 = strField (getProp iface (str ''i2'')),
                      i3 = strField (getProp iface (str ''i3'')),
                      i4 = strField (getProp iface (str ''i4'')),
                      i5 = strField (getProp iface (str ''i5'')),
                      peers = ps\<rparr>
            in if length ps = 0
               then awgFailure (if length errs > 0 then errs else [str ''No valid peers found''])
               else \<lparr>AwgParseResult.success = True, endpoint = Some ep, errors = errs\<rparr>))"

text \<open>
  What the claims say about a document: which lines are section headers, as
  \<open>parseSections\<close> reads them.
\<close>

definition isInterfaceHeader :: "jsstring \<Rightarrow> bool" where
  "isInterfaceHeader line = (toLowerCase (trim line) = str ''[interface]'')"

definition isPeerHeader :: "jsstring \<Rightarrow> bool" where
  "isPeerHeader line = (toLowerCase (trim line) = str ''[peer]'')"

section \<open>The link decoder (vless.ts)\<close>

subsection \<open>Types (types.ts)\<close>

text \<open>
  The transports are a tagged union; the fields are those the decoders set (the other
  optional fields of the interfaces are never written).
\<close>

datatype Transport =
    TcpTransport
  | WsTransport (ws_path: "jsstring option") (ws_headers: "(jsstring \<times> jsstring) list option")
      (max_early_data: "number option") (early_data_header_name: "jsstring option")
  | GrpcTransport (service_name: "jsstring option")
  | HttpTransport (http_host: "jsstring list option") (http_path: "jsstring option")
  | QuicTransport

record UtlsConfig =
  enabled :: bool
  fingerprint :: jsstring

record RealityConfig =
  enabled :: bool
  public_key :: jsstring
  short_id :: "jsstring option"

record TlsConfig =
  enabled :: bool
  server_name :: "jsstring option"
  insecure :: "bool option"
  alpn :: "jsstring list option"
  utls :: "UtlsConfig option"
  reality :: "RealityConfig option"

record VlessOutbound =
  type :: jsstring
  tag :: jsstring
  server :: jsstring
  server_port :: int
  uuid :: jsstring
  flow :: "jsstring option"
  tls :: "TlsConfig option"
  transport :: "Transport option"

record ParseResult =
  success :: bool
  outbound :: "VlessOutbound option"
  error :: "jsstring option"
  originalLink :: jsstring
  lineNumber :: int

record ParseError =
  lineNumber :: int
  link :: jsstring
  error :: jsstring

record BatchParseResult =
  outbounds :: "VlessOutbound list"
  errors :: "ParseError list"
  totalLinks :: nat
  successCount :: nat
  errorCount :: nat

subsection \<open>parseVlessLink\<close>

definition VALID_TRANSPORTS :: "jsstring list" where
  "VALID_TRANSPORTS = [str ''tcp'', str ''ws'', str ''grpc'', str ''http'', str ''quic'']"

definition VALID_SECURITY :: "jsstring list" where
  "VALID_SECURITY = [str ''none'', str ''tls'', str ''reality'']"

definition VALID_FINGERPRINTS :: "jsstring list" where
  "VALID_FINGERPRINTS =
     [str ''chrome'', str ''firefox'', str ''edge'', str ''safari'', str ''360'', str ''qq'',
      str ''ios'', str ''android'', str ''random'', str ''randomized'']"

text \<open>The value of an optional string when it is truthy (present and not empty).\<close>

definition present :: "jsstring option \<Rightarrow> jsstring option" where
  "present v = (if truthy v then v else None)"

text \<open>Every failure of the decoder is this object, with its message.\<close>

definition failure :: "jsstring \<Rightarrow> int \<Rightarrow> jsstring \<Rightarrow> ParseResult" where
  "failure lnk n msg =
     \<lparr>ParseResult.success = False, outbound = None, error = Some msg,
      originalLink = lnk, lineNumber = n\<rparr>"

text \<open>
  Host and port (the block after \<open>// Parse host and port\<close>): a bracketed host must be
  closed and followed by \<open>:\<close>; any other text is cut at its last colon. \<open>Inl\<close> is the
  message of the failure returned.
\<close>

definition parseHostPort :: "jsstring \<Rightarrow> jsstring + (jsstring \<times> number)" where
  "parseHostPort hostPort =
     (if startsWith hostPort (str ''['') then
        (case indexOf hostPort (cu CHR '']'') of
           None \<Rightarrow> Inl (str ''Invalid IPv6 address format'')
         | Some bracketEnd \<Rightarrow>
             (let server = slice hostPort 1 bracketEnd;
                  portPart = sliceFrom hostPort (bracketEnd + 1)
              in if \<not> startsWith portPart (str '':'')
                 then Inl (str ''Missing port after IPv6 address'')
                 else Inr (server, parseInt (sliceFrom portPart 1))))
      else
        (case lastIndexOf hostPort (cu CHR '':'') of
           None \<Rightarrow> Inl (str ''Missing port'')
         | Some colonIndex \<Rightarrow>
             Inr (slice hostPort 0 colonIndex, parseInt (sliceFrom hostPort (colonIndex + 1)))))"

text \<open>
  The TLS block (\<open>if (security === "tls" || security === "reality")\<close>). \<open>Inl\<close> is the
  message of the failure returned from inside the block.
\<close>

definition vlessTlsConfig :: "URLSearchParams \<Rightarrow> jsstring \<Rightarrow> jsstring \<Rightarrow> jsstring + TlsConfig" where
  "vlessTlsConfig params security srv =
     (let sni = orOpt (params_get params ''sni'') (params_get params ''serverName'');
          server_name1 =
            (if truthy sni then sni else if security = str ''tls'' then Some srv else None);
          fp = orOpt (params_get params ''fp'') (params_get params ''fingerprint'');
          utls1 =
            (case present fp of
               None \<Rightarrow> None
             | Some fpv \<Rightarrow>
                 if fpv \<in> set VALID_FINGERPRINTS
                 then Some \<lparr>UtlsConfig.enabled = True, fingerprint = fpv\<rparr>
                 else None);
          alpn1 =
            (case present (params_get params ''alpn'') of
               None \<Rightarrow> None
             | Some a \<Rightarrow> Some (js_split (cu CHR '','') a));
          allowInsecure = params_get params ''allowInsecure'';
          insecure1 =
            (if allowInsecure = Some (str ''1'') \<or> allowInsecure = Some (str ''true'')
             then Some True else None)
      in if security = str ''reality'' then
           (let pbk = params_get params ''pbk'';
                sid = orElse (params_get params ''sid'') []
            in case present pbk of
                 None \<Rightarrow> Inl (str ''Reality requires public key (pbk)'')
               | Some pk \<Rightarrow>
                   Inr \<lparr>TlsConfig.enabled = True,
                        server_name =
                          (if \<not> truthy server_name1
                           then (let spx = params_get params ''spx''
                                 in if truthy spx then spx else server_name1)
                           else server_name1),
                        insecure = insecure1, alpn = alpn1, utls = utls1,
                        reality =
                          Some \<lparr>RealityConfig.enabled = True, public_key = pk,
                                short_id = Some sid\<rparr>\<rparr>)
         else Inr \<lparr>TlsConfig.enabled = True, server_name = server_name1,
                   insecure = insecure1, alpn = alpn1, utls = utls1, reality = None\<rparr>)"

text \<open>
  \<open>buildTransport\<close> of vless.ts. \<open>decodeURIComponent(path)\<close> may throw: \<open>Inl\<close> is the
  message of the error thrown, \<open>Inr None\<close> is \<open>undefined\<close>.
\<close>

definition buildTransport :: "jsstring \<Rightarrow> URLSearchParams \<Rightarrow> jsstring + Transport option" where
  "buildTransport ty params =
     (if ty = str ''ws'' then
        (let host = params_get params ''host'';
             ed = params_get params ''ed'';
             hdrs = (case present host of
                       None \<Rightarrow> None
                     | Some h \<Rightarrow> Some [(str ''Host'', h)]);
             early = (case present ed of None \<Rightarrow> None | Some e \<Rightarrow> Some (parseInt e));
             earlyName = (case present ed of
                            None \<Rightarrow> None
                          | Some e \<Rightarrow> Some (str ''Sec-WebSocket-Protocol''))
         in case present (params_get params ''path'') of
              None \<Rightarrow> Inr (Some (WsTransport None hdrs early earlyName))
            | Some p \<Rightarrow>
                (case decodeURIComponent p of
                   None \<Rightarrow> Inl uriErrorMessage
                 | Some d \<Rightarrow> Inr (Some (WsTransport (Some d) hdrs early earlyName))))
      else if ty = str ''grpc'' then
        Inr (Some (GrpcTransport
               (present (orOpt (params_get params ''serviceName'') (params_get params ''service'')))))
      else if ty = str ''http'' then
        (let hosts = (case present (params_get params ''host'') of
                        None \<Rightarrow> None
                      | Some h \<Rightarrow> Some (js_split (cu CHR '','') h))
         in case present (params_get params ''path'') of
              None \<Rightarrow> Inr (Some (HttpTransport hosts None))
            | Some p \<Rightarrow>
                (case decodeURIComponent p of
                   None \<Rightarrow> Inl uriErrorMessage
                 | Some d \<Rightarrow> Inr (Some (HttpTransport hosts (Some d)))))
      else if ty = str ''quic'' then Inr (Some QuicTransport)
      else Inr None)"

text \<open>
  The rest of the \<open>try\<close> block once host and port are accepted: query parameters, flow,
  security, TLS and transport. \<open>Inl\<close> is the message of an error thrown, \<open>Inr\<close> the
  object returned.
\<close>

definition vlessFromParams ::
    "jsstring \<Rightarrow> int \<Rightarrow> jsstring \<Rightarrow> jsstring \<Rightarrow> int \<Rightarrow> jsstring \<Rightarrow> jsstring option \<Rightarrow>
     jsstring + ParseResult" where
  "vlessFromParams lnk n tg srv prt uid queryString =
     (let params = newURLSearchParams (orElse queryString []);
          ob0 = \<lparr>VlessOutbound.type = str ''vless'', tag = tg, server = srv, server_port = prt,
                 uuid = uid, flow = present (params_get params ''flow''), tls = None,
                 transport = None\<rparr>;
          security = orElse (params_get params ''security'') (str ''none'')
      in if security \<notin> set VALID_SECURITY
         then Inr (failure lnk n (str ''Invalid security type: '' @ security))
         else
           (case (if security = str ''tls'' \<or> security = str ''reality''
                  then map_sum id Some (vlessTlsConfig params security srv) else Inr None) of
              Inl msg \<Rightarrow> Inr (failure lnk n msg)
            | Inr tlsConfig \<Rightarrow>
                (let ob1 = ob0\<lparr>tls := tlsConfig\<rparr>;
                     transportType = orElse (params_get params ''type'') (str ''tcp'')
                 in if transportType \<notin> set VALID_TRANSPORTS
                    then Inr (failure lnk n (str ''Invalid transport type: '' @ transportType))
                    else
                      (case (if transportType \<noteq> str ''tcp''
                             then buildTransport transportType params else Inr None) of
                         Inl thrown \<Rightarrow> Inl thrown
                       | Inr tr \<Rightarrow>
                           Inr \<lparr>ParseResult.success = True,
                                outbound = Some (ob1\<lparr>transport := tr\<rparr>),
                                error = None, originalLink = lnk, lineNumber = n\<rparr>))))"

text \<open>
  The text between the scheme and the first \<open>#\<close>, and the fragment after it:
  \<open>const [mainPart, fragment] = withoutProtocol.split("#")\<close>.
\<close>

definition withoutProtocol :: "jsstring \<Rightarrow> jsstring" where
  "withoutProtocol trimmedLink = sliceFrom trimmedLink 8"

definition mainPart :: "jsstring \<Rightarrow> jsstring" where
  "mainPart trimmedLink = first_part (js_split (cu CHR ''#'') (withoutProtocol trimmedLink))"

definition fragment :: "jsstring \<Rightarrow> jsstring option" where
  "fragment trimmedLink = second_part (js_split (cu CHR ''#'') (withoutProtocol trimmedLink))"

text \<open>
  \<open>fragment ? decodeURIComponent(fragment) : defaultTag || `proxy-p${lineNumber}`\<close>;
  \<open>None\<close> when \<open>decodeURIComponent\<close> throws.
\<close>

definition linkTag :: "jsstring \<Rightarrow> int \<Rightarrow> jsstring option \<Rightarrow> jsstring option" where
  "linkTag trimmedLink n defaultTag =
     (case present (fragment trimmedLink) of
        Some f \<Rightarrow> decodeURIComponent f
      | None \<Rightarrow> Some (orElse defaultTag (str ''proxy-p'' @ numberToString n)))"

text \<open>The \<open>try\<close> block: \<open>Inl\<close> is the message of an error thrown, \<open>Inr\<close> the object returned.\<close>

definition vlessTry :: "jsstring \<Rightarrow> int \<Rightarrow> jsstring option \<Rightarrow> jsstring \<Rightarrow> jsstring + ParseResult" where
  "vlessTry lnk n defaultTag trimmedLink =
     (case linkTag trimmedLink n defaultTag of
        None \<Rightarrow> Inl uriErrorMessage
      | Some tg \<Rightarrow>
          (case lastIndexOf (mainPart trimmedLink) (cu CHR ''@'') of
             None \<Rightarrow> Inr (failure lnk n (str ''Invalid format: missing @ separator''))
           | Some atIndex \<Rightarrow>
               (let uid = slice (mainPart trimmedLink) 0 atIndex;
                    hostPortParams = sliceFrom (mainPart trimmedLink) (atIndex + 1)
                in if uid = [] \<or> length uid < 32
                   then Inr (failure lnk n (str ''Invalid UUID format''))
                   else
                     (let hostPort = first_part (js_split (cu CHR ''?'') hostPortParams);
                          queryString = second_part (js_split (cu CHR ''?'') hostPortParams)
                      in case parseHostPort hostPort of
                           Inl msg \<Rightarrow> Inr (failure lnk n msg)
                         | Inr (srv, serverPort) \<Rightarrow>
                             if srv = [] then Inr (failure lnk n (str ''Missing server address''))
                             else
                               (case serverPort of
                                  NaN \<Rightarrow> Inr (failure lnk n (str ''Invalid port number''))
                                | Num p \<Rightarrow>
                                    if p < 1 \<or> p > 65535
                                    then Inr (failure lnk n (str ''Invalid port number''))
                                    else vlessFromParams lnk n tg srv p uid queryString)))))"

definition parseVlessLink :: "jsstring \<Rightarrow> int \<Rightarrow> jsstring option \<Rightarrow> ParseResult" where
  "parseVlessLink lnk n defaultTag =
     (let trimmedLink = trim lnk
      in if trimmedLink = [] then failure lnk n (str ''Empty link'')
         else if \<not> startsWith trimmedLink (str ''vless://'')
         then failure lnk n (str ''Link must start with vless://'')
         else (case vlessTry lnk n defaultTag trimmedLink of
                 Inr r \<Rightarrow> r
               | Inl message \<Rightarrow> failure lnk n (str ''Parse error: '' @ message)))"

section \<open>The protocol dispatcher and the batch coordinator (index.ts)\<close>

datatype Protocol = vless | vmess | trojan | ss | hy2 | tuic

definition protocolName :: "Protocol \<Rightarrow> jsstring" where
  "protocolName p =
     (case p of vless \<Rightarrow> str ''vless'' | vmess \<Rightarrow> str ''vmess'' | trojan \<Rightarrow> str ''trojan''
      | ss \<Rightarrow> str ''ss'' | hy2 \<Rightarrow> str ''hy2'' | tuic \<Rightarrow> str ''tuic'')"

definition detectProtocol :: "jsstring \<Rightarrow> Protocol option" where
  "detectProtocol lnk =
     (let trimmed = toLowerCase (trim lnk)
      in if startsWith trimmed (str ''vless://'') then Some vless
         else if startsWith trimmed (str ''vmess://'') then Some vmess
         else if startsWith trimmed (str ''trojan://'') then Some trojan
         else if startsWith trimmed (str ''ss://'') then Some ss
         else if startsWith trimmed (str ''hy2://'') \<or> startsWith trimmed (str ''hysteria2://'')
         then Some hy2
         else if startsWith trimmed (str ''tuic://'') then Some tuic
         else None)"

text \<open>The template \<open>`Protocol "${protocol}" is not yet supported`\<close>.\<close>

definition notYetSupported :: "Protocol \<Rightarrow> jsstring" where
  "notYetSupported protocol =
     str ''Protocol \"'' @ protocolName protocol @ str ''\" is not yet supported''"

definition parseProxyLink :: "jsstring \<Rightarrow> int \<Rightarrow> ParseResult" where
  "parseProxyLink lnk n =
     (case detectProtocol lnk of
        None \<Rightarrow> failure lnk n (str ''Unsupported or invalid protocol'')
      | Some protocol \<Rightarrow>
          (case protocol of
             vless \<Rightarrow> parseVlessLink lnk n None
           | _ \<Rightarrow> failure lnk n (notYetSupported protocol)))"

text \<open>
  \<open>parseProxyLinks\<close>. The loop runs over the lines that are not blank; its state is the
  outbounds and errors so far and \<open>proxyCounter\<close>; \<open>i\<close> is the loop index.
\<close>

definition isComment :: "jsstring \<Rightarrow> bool" where
  "isComment line = (startsWith line (str ''#'') \<or> startsWith line (str ''//''))"

definition errorLink :: "jsstring \<Rightarrow> jsstring" where
  "errorLink line = (if length line > 50 then slice line 0 50 @ str ''...'' else line)"

definition retag :: "VlessOutbound \<Rightarrow> nat \<Rightarrow> VlessOutbound" where
  "retag ob proxyCounter =
     (if startsWith (VlessOutbound.tag ob) (str ''proxy-p'')
      then ob\<lparr>VlessOutbound.tag := str ''proxy-p'' @ numberToString (int proxyCounter)\<rparr>
      else ob)"

fun linksLoop :: "nat \<Rightarrow> jsstring list \<Rightarrow> VlessOutbound list \<times> ParseError list \<times> nat \<Rightarrow>
    VlessOutbound list \<times> ParseError list \<times> nat" where
  "linksLoop i [] st = st"
| "linksLoop i (l # ls) (obs, errs, proxyCounter) =
     (let line = trim l
      in if line = [] \<or> isComment line then linksLoop (i + 1) ls (obs, errs, proxyCounter)
         else
           (let n = int i + 1;
                result = parseProxyLink line n
            in case (if ParseResult.success result then outbound result else None) of
                 Some ob \<Rightarrow>
                   linksLoop (i + 1) ls (obs @ [retag ob proxyCounter], errs, proxyCounter + 1)
               | None \<Rightarrow>
                   linksLoop (i + 1) ls
                     (obs,
                      errs @ [\<lparr>ParseError.lineNumber = n, link = errorLink line,
                               error = orElse (ParseResult.error result) (str ''Unknown error'')\<rparr>],
                      proxyCounter)))"

definition nonBlankLines :: "jsstring \<Rightarrow> jsstring list" where
  "nonBlankLines text = filter (\<lambda>line. trim line \<noteq> []) (js_split 0xA text)"

definition parseProxyLinks :: "jsstring \<Rightarrow> BatchParseResult" where
  "parseProxyLinks text =
     (let lines = nonBlankLines text;
          (obs, errs, proxyCounter) = linksLoop 0 lines ([], [], 1)
      in \<lparr>outbounds = obs, errors = errs, totalLinks = length lines,
          successCount = length obs, errorCount = length errs\<rparr>)"

section \<open>The client-config decoder (amnezia.ts)\<close>

text \<open>
  The XRay document after \<open>JSON.parse\<close>, read at the interfaces the source declares; an
  optional member is an \<open>option\<close>.
\<close>

record XRayUser =
  user_id :: jsstring
  encryption :: "jsstring option"
  flow :: "jsstring option"

record XRayVnext =
  address :: jsstring
  port :: int
  users :: "XRayUser list"

record XRayRealitySettings =
  fingerprint :: "jsstring option"
  publicKey :: "jsstring option"
  serverName :: "jsstring option"
  shortId :: "jsstring option"
  spiderX :: "jsstring option"

record XRayTlsSettings =
  serverName :: "jsstring option"
  fingerprint :: "jsstring option"
  alpn :: "jsstring list option"
  allowInsecure :: "bool option"

record XRayWsSettings =
  path :: "jsstring option"
  headers :: "(jsstring \<times> jsstring) list option"

record XRayGrpcSettings =
  serviceName :: "jsstring option"
  multiMode :: "bool option"

record XRayHttpSettings =
  path :: "jsstring option"
  host :: "jsstring list option"

record XRayStreamSettings =
  network :: "jsstring option"
  security :: "jsstring option"
  realitySettings :: "XRayRealitySettings option"
  tlsSettings :: "XRayTlsSettings option"
  wsSettings :: "XRayWsSettings option"
  grpcSettings :: "XRayGrpcSettings option"
  httpSettings :: "XRayHttpSettings option"

record XRaySettings =
  vnext :: "XRayVnext list option"

record XRayOutbound =
  protocol :: jsstring
  tag :: "jsstring option"
  settings :: "XRaySettings option"
  streamSettings :: "XRayStreamSettings option"

record XRayConfig =
  outbounds :: "XRayOutbound list option"

record AmneziaParseResult =
  success :: bool
  outbounds :: "VlessOutbound list"
  errors :: "jsstring list"

text \<open>\<open>buildTlsConfig\<close> of amnezia.ts.\<close>

definition buildTlsConfig :: "XRayStreamSettings \<Rightarrow> TlsConfig" where
  "buildTlsConfig stream =
     (let tlsConfig = \<lparr>TlsConfig.enabled = True, server_name = None, insecure = None,
                        alpn = None, utls = None, reality = None\<rparr>
      in if security stream = Some (str ''reality'') then
           (case realitySettings stream of
              None \<Rightarrow> tlsConfig
            | Some rs \<Rightarrow>
                tlsConfig
                  \<lparr>TlsConfig.server_name := present (XRayRealitySettings.serverName rs),
                   TlsConfig.utls := (case present (XRayRealitySettings.fingerprint rs) of
                              None \<Rightarrow> None
                            | Some f \<Rightarrow> Some \<lparr>UtlsConfig.enabled = True, fingerprint = f\<rparr>),
                   TlsConfig.reality := (case present (publicKey rs) of
                                 None \<Rightarrow> None
                               | Some k \<Rightarrow>
                                   Some \<lparr>RealityConfig.enabled = True, public_key = k,
                                         short_id = Some (orElse (shortId rs) [])\<rparr>)\<rparr>)
         else if security stream = Some (str ''tls'') then
           (case tlsSettings stream of
              None \<Rightarrow> tlsConfig
            | Some ts \<Rightarrow>
                tlsConfig
                  \<lparr>TlsConfig.server_name := present (XRayTlsSettings.serverName ts),
                   TlsConfig.utls := (case present (XRayTlsSettings.fingerprint ts) of
                              None \<Rightarrow> None
                            | Some f \<Rightarrow> Some \<lparr>UtlsConfig.enabled = True, fingerprint = f\<rparr>),
                   TlsConfig.alpn := (case XRayTlsSettings.alpn ts of
                              None \<Rightarrow> None
                            | Some a \<Rightarrow> if length a > 0 then Some a else None),
                   TlsConfig.insecure := (if allowInsecure ts = Some True then Some True else None)\<rparr>)
         else tlsConfig)"

text \<open>\<open>buildTransport\<close> of amnezia.ts; \<open>None\<close> is \<open>undefined\<close>.\<close>

definition buildTransportXRay :: "jsstring \<Rightarrow> XRayStreamSettings \<Rightarrow> Transport option" where
  "buildTransportXRay nw stream =
     (if nw = str ''ws'' then
        Some (WsTransport
                (case wsSettings stream of None \<Rightarrow> None | Some ws \<Rightarrow> present (XRayWsSettings.path ws))
                (case wsSettings stream of None \<Rightarrow> None | Some ws \<Rightarrow> headers ws)
                None None)
      else if nw = str ''grpc'' then
        Some (GrpcTransport
                (case grpcSettings stream of None \<Rightarrow> None | Some g \<Rightarrow> present (serviceName g)))
      else if nw = str ''http'' \<or> nw = str ''h2'' then
        Some (HttpTransport
                (case httpSettings stream of
                   None \<Rightarrow> None
                 | Some h \<Rightarrow>
                     (case host h of
                        None \<Rightarrow> None
                      | Some hs \<Rightarrow> if length hs > 0 then Some hs else None))
                (case httpSettings stream of
                   None \<Rightarrow> None
                 | Some h \<Rightarrow> present (XRayHttpSettings.path h)))
      else if nw = str ''quic'' then Some QuicTransport
      else None)"

text \<open>
  \<open>convertXRayToSingbox\<close>: \<open>Inl\<close> is the message of the \<open>Error\<close> thrown. The first
  connection target and its first user are used.
\<close>

definition convertXRayToSingbox :: "XRayOutbound \<Rightarrow> nat \<Rightarrow> jsstring + VlessOutbound" where
  "convertXRayToSingbox xray index =
     (case (case settings xray of
              None \<Rightarrow> None
            | Some s \<Rightarrow> (case vnext s of None \<Rightarrow> None | Some [] \<Rightarrow> None | Some (v # _) \<Rightarrow> Some v)) of
        None \<Rightarrow> Inl (str ''No vnext configuration found'')
      | Some v \<Rightarrow>
          (case users v of
             [] \<Rightarrow> Inl (str ''No user configuration found'')
           | user # _ \<Rightarrow>
               (let ob = \<lparr>VlessOutbound.type = str ''vless'',
                          tag = orElse (XRayOutbound.tag xray)
                                  (str ''proxy-p'' @ numberToString (int index)),
                          server = XRayVnext.address v, server_port = XRayVnext.port v,
                          uuid = user_id user, flow = present (XRayUser.flow user),
                          tls = None, transport = None\<rparr>
                in case streamSettings xray of
                     None \<Rightarrow> Inr ob
                   | Some stream \<Rightarrow>
                       Inr (ob\<lparr>VlessOutbound.tls :=
                                 (if security stream = Some (str ''tls'') \<or>
                                     security stream = Some (str ''reality'')
                                  then Some (buildTlsConfig stream) else None),
                               VlessOutbound.transport :=
                                 (let nw = orElse (network stream) (str ''tcp'')
                                  in if nw \<noteq> str ''tcp'' then buildTransportXRay nw stream
                                     else None)\<rparr>))))"

text \<open>The loop of \<open>parseAmneziaConfig\<close>: \<open>i\<close> is the index, the state the outbounds, the errors and \<open>proxyCounter\<close>.\<close>

fun amneziaLoop :: "nat \<Rightarrow> XRayOutbound list \<Rightarrow> VlessOutbound list \<times> jsstring list \<times> nat \<Rightarrow>
    VlessOutbound list \<times> jsstring list \<times> nat" where
  "amneziaLoop i [] st = st"
| "amneziaLoop i (xrayOutbound # rest) (obs, errs, proxyCounter) =
     (if protocol xrayOutbound \<noteq> str ''vless''
      then amneziaLoop (i + 1) rest
             (obs,
              errs @ [str ''Outbound '' @ numberToString (int i + 1) @ str '': protocol \"'' @
                      protocol xrayOutbound @ str ''\" not supported, skipping''],
              proxyCounter)
      else (case convertXRayToSingbox xrayOutbound proxyCounter of
              Inr singboxOutbound \<Rightarrow>
                amneziaLoop (i + 1) rest (obs @ [singboxOutbound], errs, proxyCounter + 1)
            | Inl message \<Rightarrow>
                amneziaLoop (i + 1) rest
                  (obs, errs @ [str ''Outbound '' @ numberToString (int i + 1) @ str '': '' @ message],
                   proxyCounter)))"

text \<open>
  \<open>parseAmneziaConfig\<close>, from the outcome of \<open>JSON.parse(jsonText)\<close>: \<open>Inl\<close> is the message
  of the \<open>SyntaxError\<close>, \<open>Inr\<close> the document.
\<close>

definition parseAmneziaConfig :: "jsstring + XRayConfig \<Rightarrow> AmneziaParseResult" where
  "parseAmneziaConfig parsed =
     (case parsed of
        Inl message \<Rightarrow>
          \<lparr>AmneziaParseResult.success = False, outbounds = [],
           errors = [str ''Invalid JSON: '' @ message]\<rparr>
      | Inr config \<Rightarrow>
          (case XRayConfig.outbounds config of
             None \<Rightarrow>
               \<lparr>AmneziaParseResult.success = False, outbounds = [],
                errors = [str ''No outbounds array found in config'']\<rparr>
           | Some xs \<Rightarrow>
               (let (obs, errs, proxyCounter) = amneziaLoop 0 xs ([], [], 1)
                in \<lparr>AmneziaParseResult.success = (length obs > 0), outbounds = obs,
                    errors = errs\<rparr>)))"

section \<open>The assembler (builder.ts)\<close>

text \<open>
  An outbound is an object with \<open>type\<close>, \<open>tag\<close> and any further keys; the further keys are
  kept in order with their values.
\<close>

datatype jsvalue =
    JString jsstring
  | JNumber int
  | JBool bool
  | JArray "jsvalue list"
  | JObject "(jsstring \<times> jsvalue) list"

record Outbound =
  type :: jsstring
  tag :: jsstring
  otherKeys :: "(jsstring \<times> jsvalue) list"

type_synonym AwgEndpointConfig = AwgEndpoint

record LogConfig =
  level :: jsstring
  timestamp :: bool

record CacheFileConfig =
  enabled :: bool
  path :: jsstring

record ClashApiConfig =
  external_controller :: jsstring
  external_ui :: jsstring
  secret :: jsstring

record ExperimentalConfig =
  cache_file :: CacheFileConfig
  clash_api :: ClashApiConfig

record RouteRule =
  ip_is_private :: "bool option"
  outbound :: jsstring

record RouteConfig =
  default_domain_resolver :: jsstring
  auto_detect_interface :: bool
  final :: jsstring
  rules :: "RouteRule list"

record ('dns, 'inb) SingBoxConfig =
  log :: LogConfig
  experimental :: ExperimentalConfig
  dns :: 'dns
  inbounds :: 'inb
  endpoints :: "AwgEndpointConfig list option"
  outbounds :: "Outbound list"
  route :: RouteConfig

record ('dp, 'ip) BuildOptions =
  outbounds :: "Outbound list"
  endpoints :: "AwgEndpointConfig list option"
  dnsPreset :: 'dp
  inboundPreset :: 'ip

text \<open>The three system outbounds, as the object literals of \<open>buildConfig\<close> write them.\<close>

definition selectorOutbound :: "jsstring list \<Rightarrow> jsstring \<Rightarrow> Outbound" where
  "selectorOutbound offered dflt =
     \<lparr>Outbound.type = str ''selector'', tag = str ''proxy'',
      otherKeys = [(str ''outbounds'', JArray (map JString offered)),
                (str ''default'', JString dflt)]\<rparr>"

definition urltestOutbound :: "jsstring list \<Rightarrow> Outbound" where
  "urltestOutbound raced =
     \<lparr>Outbound.type = str ''urltest'', tag = str ''auto'',
      otherKeys = [(str ''outbounds'', JArray (map JString raced)),
                (str ''url'', JString (str ''https://www.gstatic.com/generate_204'')),
                (str ''interval'', JString (str ''5m'')),
                (str ''tolerance'', JNumber 50)]\<rparr>"

definition directOutbound :: Outbound where
  "directOutbound = \<lparr>Outbound.type = str ''direct'', tag = str ''direct'', otherKeys = []\<rparr>"

text \<open>
  \<open>buildConfig\<close>. The preset tables \<open>dnsPresets\<close> and \<open>inboundPresets\<close> are parameters: each
  maps a preset identifier to the \<open>config\<close> of its entry. \<open>endpoints = []\<close> is the default
  of the destructuring for an absent member.
\<close>

definition buildConfig ::
    "('dp \<Rightarrow> 'dns) \<Rightarrow> ('ip \<Rightarrow> 'inb) \<Rightarrow> ('dp, 'ip) BuildOptions \<Rightarrow> ('dns, 'inb) SingBoxConfig" where
  "buildConfig dnsPresets inboundPresets options =
     (let obs = BuildOptions.outbounds options;
          eps = (case BuildOptions.endpoints options of None \<Rightarrow> [] | Some e \<Rightarrow> e);
          allTags = map Outbound.tag obs @ map AwgEndpoint.tag eps;
          systemOutbounds =
            [selectorOutbound
               (if length allTags > 0 then str ''auto'' # allTags else [str ''direct''])
               (if length allTags > 0 then str ''auto'' else str ''direct'')] @
            (if length allTags > 0 then [urltestOutbound allTags] else []) @
            [directOutbound]
      in \<lparr>log = \<lparr>level = str ''info'', timestamp = True\<rparr>,
          experimental =
            \<lparr>cache_file = \<lparr>CacheFileConfig.enabled = True, path = str ''cache.db''\<rparr>,
             clash_api = \<lparr>external_controller = str ''127.0.0.1:9090'',
                          external_ui = str ''ui'', secret = []\<rparr>\<rparr>,
          dns = dnsPresets (dnsPreset options),
          inbounds = inboundPresets (inboundPreset options),
          endpoints = (if length eps > 0 then Some eps else None),
          outbounds = obs @ systemOutbounds,
          route =
            \<lparr>default_domain_resolver = str ''local'', auto_detect_interface = True,
             final = str ''proxy'',
             rules = [\<lparr>ip_is_private = Some True, outbound = str ''direct''\<rparr>]\<rparr>\<rparr>)"

text \<open>
  The first two units of every message of the link decoder; no message of the dispatcher
  starts like one of them (\<open>Pr\<close> and \<open>Un\<close>).
\<close>

definition vlessMessageStarts :: "jsstring list" where
  "vlessMessageStarts = [str ''Em'', str ''Li'', str ''Pa'', str ''In'', str ''Mi'', str ''Re'']"

text \<open>A text that \<open>trim\<close> leaves alone: empty, or with no white space at either end.\<close>

definition trimmed :: "jsstring \<Rightarrow> bool" where
  "trimmed t = (t = [] \<or> (\<not> isWhiteSpace (hd t) \<and> \<not> isWhiteSpace (last t)))"

text \<open>A line that \<open>parseLine\<close> reads as a \<open>PrivateKey\<close> entry (in any letter case).\<close>

definition hasPrivateKeyLine :: "jsstring \<Rightarrow> bool" where
  "hasPrivateKeyLine line =
     (case parseLine line of None \<Rightarrow> False | Some (k, v) \<Rightarrow> toLowerCase k = str ''privatekey'')"

text \<open>
  The lines of the input as \<open>text.split("\n")\<close> gives them, and the test of the filter
  (\<open>line.trim()\<close> is falsy for a line of white space only).
\<close>

definition textLines :: "jsstring \<Rightarrow> jsstring list" where
  "textLines text = js_split 0xA text"

definition isBlank :: "jsstring \<Rightarrow> bool" where
  "isBlank line = (trim line = [])"

text \<open>
  What the claims say about a link. \<open>fragmentDecodes\<close>: the tag can be computed, that is
  \<open>decodeURIComponent\<close> does not throw on the fragment. \<open>linkShape\<close>: the trimmed link has
  the scheme, a decodable fragment, and a main part made of a credential \<open>uid\<close> of at least
  32 units, an \<open>@\<close>, a host-and-port text \<open>hp\<close> and a query part \<open>q\<close> (empty, or starting
  with \<open>?\<close>), with no further \<open>@\<close> after the credential and no \<open>?\<close> in \<open>hp\<close>.
\<close>

definition fragmentDecodes :: "jsstring \<Rightarrow> bool" where
  "fragmentDecodes trimmedLink =
     (case present (fragment trimmedLink) of
        None \<Rightarrow> True
      | Some f \<Rightarrow> decodeURIComponent f \<noteq> None)"




section \<open>Properties\<close>

subsection \<open>Trimming\<close>

lemma dropWhile_last_keep:
  "xs \<noteq> [] \<Longrightarrow> \<not> P (last xs) \<Longrightarrow> dropWhile P xs \<noteq> [] \<and> last (dropWhile P xs) = last xs"
  by (induction xs) auto

lemma trimmed_trim: "trimmed (trim s)"
proof (cases "dropWhile isWhiteSpace s = []")
  case True
  show ?thesis unfolding trim_def trimmed_def True by simp
next
  case False
  define a where "a = dropWhile isWhiteSpace s"
  have a: "a \<noteq> []" "\<not> isWhiteSpace (hd a)"
    using False hd_dropWhile[of isWhiteSpace s] by (simp_all add: a_def)
  define b where "b = dropWhile isWhiteSpace (rev a)"
  have ra: "rev a \<noteq> []" "\<not> isWhiteSpace (last (rev a))"
    using a by (simp_all add: last_rev)
  from dropWhile_last_keep[of "rev a" isWhiteSpace, OF ra]
  have b: "b \<noteq> []" "last b = hd a" using a by (simp_all add: b_def last_rev)
  have hb: "\<not> isWhiteSpace (hd b)"
    using b(1) hd_dropWhile[of isWhiteSpace "rev a"] by (simp add: b_def)
  have "trim s = rev b" by (simp add: trim_def a_def b_def)
  then show ?thesis using a b hb by (simp add: trimmed_def hd_rev last_rev)
qed

lemma trim_trimmed: "trimmed t \<Longrightarrow> trim t = t"
proof (cases t)
  case Nil then show ?thesis by (simp add: trim_def)
next
  case (Cons x xs)
  assume "trimmed t"
  with Cons have h: "\<not> isWhiteSpace x" "\<not> isWhiteSpace (last t)" by (simp_all add: trimmed_def)
  have 1: "dropWhile isWhiteSpace t = t" using Cons h by simp
  have "t \<noteq> []" using Cons by simp
  then have "rev t \<noteq> []" "\<not> isWhiteSpace (hd (rev t))"
    using h(2) by (simp_all only: hd_rev rev_is_Nil_conv not_False_eq_True)
  then have 2: "dropWhile isWhiteSpace (rev t) = rev t" by (cases "rev t") simp_all
  show ?thesis by (simp add: trim_def 1 2)
qed

lemma trim_idem: "trim (trim s) = trim s"
  by (rule trim_trimmed[OF trimmed_trim])

lemma trimmed_append:
  "trimmed t \<Longrightarrow> u \<noteq> [] \<Longrightarrow> \<not> isWhiteSpace (last u) \<Longrightarrow>
   (t = [] \<Longrightarrow> \<not> isWhiteSpace (hd u)) \<Longrightarrow> trimmed (t @ u)"
  by (cases t) (auto simp: trimmed_def)

subsection \<open>Interface addresses\<close>

lemma parseCommaSeparated_trimmed:
  "a \<in> set (parseCommaSeparated v) \<Longrightarrow> trim a = a \<and> a \<noteq> []"
  by (auto simp: parseCommaSeparated_def trim_idem)

lemma normalizeAddress_of_trimmed:
  "trim a = a \<Longrightarrow> normalizeAddress a =
     (if cu CHR ''/'' \<in> set a then a
      else if cu CHR '':'' \<in> set a then a @ str ''/128'' else a @ str ''/32'')"
  by (simp add: normalizeAddress_def js_includes_def Let_def)

lemma normalizeAddress_has_slash: "cu CHR ''/'' \<in> set (normalizeAddress a)"
  by (simp add: normalizeAddress_def js_includes_def Let_def str_def)

lemma normalizeAddress_is_trimmed: "trim (normalizeAddress a) = normalizeAddress a"
proof -
  have t: "trimmed (trim a)" by (rule trimmed_trim)
  have "trimmed (normalizeAddress a)"
    unfolding normalizeAddress_def Let_def
    using t by (auto intro!: trimmed_append simp: str_def cu_def isWhiteSpace_def)
  then show ?thesis by (rule trim_trimmed)
qed

lemma normalizeAddress_idem: "normalizeAddress (normalizeAddress a) = normalizeAddress a"
  using normalizeAddress_of_trimmed[OF normalizeAddress_is_trimmed, of a]
    normalizeAddress_has_slash[of a]
  by simp

text \<open>
  C6. Every interface address, that is every element \<open>a\<close> of the comma-separated
  \<open>Address\<close> value \<open>v\<close> that \<open>parseAwgConfig\<close> hands to \<open>normalizeAddress\<close>, is returned
  unchanged when it contains a \<open>/\<close>, gets \<open>/128\<close> appended when it contains a colon and no
  \<open>/\<close>, and gets \<open>/32\<close> appended otherwise. \<open>10.0.0.2\<close> becomes \<open>10.0.0.2/32\<close>,
  \<open>fd00::2\<close> becomes \<open>fd00::2/128\<close>, \<open>10.0.0.2/24\<close> stays, and normalizing twice is
  normalizing once, for every text.
\<close>

theorem normalizeAddress_prefix_length:
  "(a \<in> set (parseCommaSeparated v) \<longrightarrow>
      normalizeAddress a =
        (if cu CHR ''/'' \<in> set a then a
         else if cu CHR '':'' \<in> set a then a @ str ''/128''
         else a @ str ''/32'')) \<and>
   normalizeAddress (str ''10.0.0.2'') = str ''10.0.0.2/32'' \<and>
   normalizeAddress (str ''fd00::2'') = str ''fd00::2/128'' \<and>
   normalizeAddress (str ''10.0.0.2/24'') = str ''10.0.0.2/24'' \<and>
   normalizeAddress (normalizeAddress b) = normalizeAddress b"
proof -
  have 1: "a \<in> set (parseCommaSeparated v) \<longrightarrow>
      normalizeAddress a =
        (if cu CHR ''/'' \<in> set a then a
         else if cu CHR '':'' \<in> set a then a @ str ''/128''
         else a @ str ''/32'')"
    using parseCommaSeparated_trimmed[of a v] normalizeAddress_of_trimmed[of a] by blast
  have 2: "normalizeAddress (str ''10.0.0.2'') = str ''10.0.0.2/32''" by code_simp
  have 3: "normalizeAddress (str ''fd00::2'') = str ''fd00::2/128''" by code_simp
  have 4: "normalizeAddress (str ''10.0.0.2/24'') = str ''10.0.0.2/24''" by code_simp
  show ?thesis using 1 2 3 4 normalizeAddress_idem[of b] by blast
qed

theorem normalizeAddress_prefix_length_witness:
  "str ''fd00::2'' \<in> set (parseCommaSeparated (str ''10.0.0.2, fd00::2'')) \<and>
   normalizeAddress (str ''fd00::2'') = str ''fd00::2'' @ str ''/128''"
proof -
  have h: "str ''fd00::2'' \<in> set (parseCommaSeparated (str ''10.0.0.2, fd00::2''))"
    by code_simp
  have c: "cu CHR ''/'' \<notin> set (str ''fd00::2'')" "cu CHR '':'' \<in> set (str ''fd00::2'')"
    by code_simp+
  show ?thesis
    using h c normalizeAddress_prefix_length[of "str ''fd00::2''" "str ''10.0.0.2, fd00::2''"]
    by simp
qed

subsection \<open>The VPN-config decoder\<close>

lemma sectionsStep_no_interface:
  assumes "\<not> isInterfaceHeader l" "currentSection st \<noteq> SecInterface" "res_interface st = []"
  shows "currentSection (sectionsStep st l) \<noteq> SecInterface \<and> res_interface (sectionsStep st l) = []"
  using assms
  by (auto simp: sectionsStep_def isInterfaceHeader_def Let_def split: option.splits prod.splits)

lemma foldl_no_interface:
  "\<forall>l\<in>set ls. \<not> isInterfaceHeader l \<Longrightarrow> currentSection st \<noteq> SecInterface \<Longrightarrow> res_interface st = [] \<Longrightarrow>
   res_interface (foldl sectionsStep st ls) = []"
proof (induction ls arbitrary: st)
  case Nil then show ?case by simp
next
  case (Cons l ls)
  have "currentSection (sectionsStep st l) \<noteq> SecInterface \<and> res_interface (sectionsStep st l) = []"
    using Cons.prems by (intro sectionsStep_no_interface) simp_all
  then show ?case using Cons by simp
qed

lemma no_interface_header:
  "\<forall>l\<in>set (confLines c). \<not> isInterfaceHeader l \<Longrightarrow> fst (parseSections c) = []"
  by (simp add: parseSections_def Let_def foldl_no_interface sectionsInit_def)

lemma sectionsStep_no_peer:
  assumes "\<not> isPeerHeader l" "currentSection st \<noteq> SecPeer" "res_peers st = []"
  shows "currentSection (sectionsStep st l) \<noteq> SecPeer \<and> res_peers (sectionsStep st l) = []"
  using assms
  by (auto simp: sectionsStep_def isPeerHeader_def Let_def split: option.splits prod.splits)

lemma foldl_no_peer:
  "\<forall>l\<in>set ls. \<not> isPeerHeader l \<Longrightarrow> currentSection st \<noteq> SecPeer \<Longrightarrow> res_peers st = [] \<Longrightarrow>
   currentSection (foldl sectionsStep st ls) \<noteq> SecPeer \<and> res_peers (foldl sectionsStep st ls) = []"
proof (induction ls arbitrary: st)
  case Nil then show ?case by simp
next
  case (Cons l ls)
  have "currentSection (sectionsStep st l) \<noteq> SecPeer \<and> res_peers (sectionsStep st l) = []"
    using Cons.prems by (intro sectionsStep_no_peer) simp_all
  then show ?case using Cons by simp
qed

lemma no_peer_header:
  "\<forall>l\<in>set (confLines c). \<not> isPeerHeader l \<Longrightarrow> snd (parseSections c) = []"
  using foldl_no_peer[of "confLines c" sectionsInit]
  by (simp add: parseSections_def Let_def sectionsInit_def flushPeer_def)

lemma parseLine_trim: "parseLine (trim l) = parseLine l"
  by (simp add: parseLine_def trim_idem)

lemma getProp_setProp_other:
  "k \<noteq> k' \<Longrightarrow> getProp (setProp obj k v) k' = getProp obj k'"
  by (simp add: getProp_def setProp_def update_conv')

lemma sectionsStep_no_key:
  assumes "\<not> hasPrivateKeyLine l" "getProp (res_interface st) (str ''privatekey'') = None"
  shows "getProp (res_interface (sectionsStep st l)) (str ''privatekey'') = None"
  using assms
  by (auto simp: sectionsStep_def hasPrivateKeyLine_def parseLine_trim getProp_setProp_other Let_def split: option.splits prod.splits)

lemma foldl_no_key:
  "\<forall>l\<in>set ls. \<not> hasPrivateKeyLine l \<Longrightarrow> getProp (res_interface st) (str ''privatekey'') = None \<Longrightarrow>
   getProp (res_interface (foldl sectionsStep st ls)) (str ''privatekey'') = None"
proof (induction ls arbitrary: st)
  case Nil then show ?case by simp
next
  case (Cons l ls)
  have "getProp (res_interface (sectionsStep st l)) (str ''privatekey'') = None"
    using Cons.prems by (intro sectionsStep_no_key) simp_all
  then show ?case using Cons by simp
qed

lemma no_private_key_line:
  "\<forall>l\<in>set (confLines c). \<not> hasPrivateKeyLine l \<Longrightarrow>
   getProp (fst (parseSections c)) (str ''privatekey'') = None"
  using foldl_no_key[of "confLines c" sectionsInit]
  by (simp add: parseSections_def Let_def sectionsInit_def getProp_def)

lemma parseAwgConfig_fails:
  assumes "fst (parseSections c) = [] \<or> \<not> truthy (getProp (fst (parseSections c)) (str ''privatekey'')) \<or> snd (parseSections c) = []"
  shows "AwgParseResult.success (parseAwgConfig c) = False \<and> AwgParseResult.endpoint (parseAwgConfig c) = None"
  using assms by (auto simp: parseAwgConfig_def Let_def awgFailure_def keysLength_def)

text \<open>
  C7. \<open>parseAwgConfig\<close> returns \<open>success = false\<close> and no endpoint whenever the document
  has no \<open>[Interface]\<close> header line, has no \<open>PrivateKey\<close> line at all, has an
  \<open>[Interface]\<close> section that holds no (non-empty) private key, or has no \<open>[Peer]\<close> header
  line. The document made of \<open>[Interface]\<close> and \<open>PrivateKey = X\<close> fails with exactly the
  one diagnostic \<open>No [Peer] section found\<close> and no endpoint.
\<close>

theorem parseAwgConfig_requires_sections:
  "((\<forall>l\<in>set (confLines c). \<not> isInterfaceHeader l) \<or>
    (\<forall>l\<in>set (confLines c). \<not> hasPrivateKeyLine l) \<or>
    \<not> truthy (getProp (fst (parseSections c)) (str ''privatekey'')) \<or>
    (\<forall>l\<in>set (confLines c). \<not> isPeerHeader l) \<longrightarrow>
    AwgParseResult.success (parseAwgConfig c) = False \<and> AwgParseResult.endpoint (parseAwgConfig c) = None) \<and>
   parseAwgConfig (str ''[Interface]'' @ [0xA] @ str ''PrivateKey = X'') =
     \<lparr>AwgParseResult.success = False, AwgParseResult.endpoint = None, AwgParseResult.errors = [str ''No [Peer] section found'']\<rparr>"
proof -
  have ex: "parseAwgConfig (str ''[Interface]'' @ [0xA] @ str ''PrivateKey = X'') =
     \<lparr>AwgParseResult.success = False, AwgParseResult.endpoint = None, AwgParseResult.errors = [str ''No [Peer] section found'']\<rparr>"
    by code_simp
  have "AwgParseResult.success (parseAwgConfig c) = False \<and> AwgParseResult.endpoint (parseAwgConfig c) = None"
    if "(\<forall>l\<in>set (confLines c). \<not> isInterfaceHeader l) \<or>
    (\<forall>l\<in>set (confLines c). \<not> hasPrivateKeyLine l) \<or>
    \<not> truthy (getProp (fst (parseSections c)) (str ''privatekey'')) \<or>
    (\<forall>l\<in>set (confLines c). \<not> isPeerHeader l)"
  proof -
    from that have "fst (parseSections c) = [] \<or> \<not> truthy (getProp (fst (parseSections c)) (str ''privatekey'')) \<or> snd (parseSections c) = []"
      using no_interface_header[of c] no_peer_header[of c] no_private_key_line[of c]
      by (auto simp: truthy_def)
    then show ?thesis by (rule parseAwgConfig_fails)
  qed
  with ex show ?thesis by blast
qed

theorem parseAwgConfig_requires_sections_witness:
  "filter isPeerHeader (confLines (str ''[Interface]'' @ [0xA] @ str ''PrivateKey = X'')) = [] \<and>
   AwgParseResult.success (parseAwgConfig (str ''[Interface]'' @ [0xA] @ str ''PrivateKey = X'')) = False \<and>
   AwgParseResult.endpoint (parseAwgConfig (str ''[Interface]'' @ [0xA] @ str ''PrivateKey = X'')) = None \<and>
   filter isInterfaceHeader (confLines (str ''[Peer]'' @ [0xA] @ str ''PublicKey = Y'')) = [] \<and>
   AwgParseResult.success (parseAwgConfig (str ''[Peer]'' @ [0xA] @ str ''PublicKey = Y'')) = False \<and>
   AwgParseResult.endpoint (parseAwgConfig (str ''[Peer]'' @ [0xA] @ str ''PublicKey = Y'')) = None \<and>
   filter hasPrivateKeyLine
     (confLines (str ''[Interface]'' @ [0xA] @ str ''MTU = 1280'' @ [0xA] @ str ''[Peer]'')) = [] \<and>
   AwgParseResult.success
     (parseAwgConfig (str ''[Interface]'' @ [0xA] @ str ''MTU = 1280'' @ [0xA] @ str ''[Peer]'')) = False \<and>
   AwgParseResult.endpoint
     (parseAwgConfig (str ''[Interface]'' @ [0xA] @ str ''MTU = 1280'' @ [0xA] @ str ''[Peer]'')) = None"
proof -
  note t = parseAwgConfig_requires_sections[THEN conjunct1, THEN mp]
  have f1: "filter isPeerHeader (confLines (str ''[Interface]'' @ [0xA] @ str ''PrivateKey = X'')) = []"
    by code_simp
  have f2: "filter isInterfaceHeader (confLines (str ''[Peer]'' @ [0xA] @ str ''PublicKey = Y'')) = []"
    by code_simp
  have f3: "filter hasPrivateKeyLine
      (confLines (str ''[Interface]'' @ [0xA] @ str ''MTU = 1280'' @ [0xA] @ str ''[Peer]'')) = []"
    by code_simp
  have h1: "\<forall>l\<in>set (confLines (str ''[Interface]'' @ [0xA] @ str ''PrivateKey = X'')). \<not> isPeerHeader l"
    using f1 by (simp only: filter_empty_conv)
  have h2: "\<forall>l\<in>set (confLines (str ''[Peer]'' @ [0xA] @ str ''PublicKey = Y'')). \<not> isInterfaceHeader l"
    using f2 by (simp only: filter_empty_conv)
  have h3: "\<forall>l\<in>set (confLines (str ''[Interface]'' @ [0xA] @ str ''MTU = 1280'' @ [0xA] @ str ''[Peer]'')).
      \<not> hasPrivateKeyLine l"
    using f3 by (simp only: filter_empty_conv)
  have r1: "AwgParseResult.success (parseAwgConfig (str ''[Interface]'' @ [0xA] @ str ''PrivateKey = X'')) = False \<and>
      AwgParseResult.endpoint (parseAwgConfig (str ''[Interface]'' @ [0xA] @ str ''PrivateKey = X'')) = None"
    by (rule t[OF disjI2[OF disjI2[OF disjI2[OF h1]]]])
  have r2: "AwgParseResult.success (parseAwgConfig (str ''[Peer]'' @ [0xA] @ str ''PublicKey = Y'')) = False \<and>
      AwgParseResult.endpoint (parseAwgConfig (str ''[Peer]'' @ [0xA] @ str ''PublicKey = Y'')) = None"
    by (rule t[OF disjI1[OF h2]])
  have r3: "AwgParseResult.success
        (parseAwgConfig (str ''[Interface]'' @ [0xA] @ str ''MTU = 1280'' @ [0xA] @ str ''[Peer]'')) = False \<and>
      AwgParseResult.endpoint
        (parseAwgConfig (str ''[Interface]'' @ [0xA] @ str ''MTU = 1280'' @ [0xA] @ str ''[Peer]'')) = None"
    by (rule t[OF disjI2[OF disjI1[OF h3]]])
  show ?thesis
    apply (rule conjI, rule f1)
    apply (rule conjI, rule r1[THEN conjunct1])
    apply (rule conjI, rule r1[THEN conjunct2])
    apply (rule conjI, rule f2)
    apply (rule conjI, rule r2[THEN conjunct1])
    apply (rule conjI, rule r2[THEN conjunct2])
    apply (rule conjI, rule f3)
    apply (rule conjI, rule r3[THEN conjunct1])
    apply (rule r3[THEN conjunct2])
    done
qed

subsection \<open>The protocol dispatcher\<close>

lemma startsWith_take2: "startsWith t p \<Longrightarrow> 2 \<le> length p \<Longrightarrow> take 2 t = take 2 p"
proof -
  assume a: "startsWith t p" and b: "2 \<le> length p"
  have "take 2 (take (length p) t) = take 2 t" using b by (simp add: min_def)
  moreover have "take (length p) t = p" using a by (simp add: startsWith_def)
  ultimately show ?thesis by (simp only:)
qed

lemma take2_str:
  "take 2 (str ''vless://'') = [0x76, 0x6C]"
  "take 2 (str ''vmess://'') = [0x76, 0x6D]"
  "take 2 (str ''trojan://'') = [0x74, 0x72]"
  "take 2 (str ''ss://'') = [0x73, 0x73]"
  "take 2 (str ''hy2://'') = [0x68, 0x79]"
  "take 2 (str ''hysteria2://'') = [0x68, 0x79]"
  "take 2 (str ''tuic://'') = [0x74, 0x75]"
  by (simp_all add: str_def cu_def)

lemma len_str: "2 \<le> length (str ''vless://'')" "2 \<le> length (str ''vmess://'')"
  "2 \<le> length (str ''trojan://'')" "2 \<le> length (str ''ss://'')" "2 \<le> length (str ''hy2://'')"
  "2 \<le> length (str ''hysteria2://'')" "2 \<le> length (str ''tuic://'')"
  by (simp_all add: str_def)

lemmas sw2 = startsWith_take2[OF _ len_str(1)] startsWith_take2[OF _ len_str(2)]
  startsWith_take2[OF _ len_str(3)] startsWith_take2[OF _ len_str(4)]
  startsWith_take2[OF _ len_str(5)] startsWith_take2[OF _ len_str(6)] startsWith_take2[OF _ len_str(7)]

lemma detect_vmess: "startsWith (toLowerCase (trim lnk)) (str ''vmess://'') \<Longrightarrow> detectProtocol lnk = Some vmess"
  unfolding detectProtocol_def Let_def by (auto dest!: sw2 simp: take2_str)
lemma detect_trojan: "startsWith (toLowerCase (trim lnk)) (str ''trojan://'') \<Longrightarrow> detectProtocol lnk = Some trojan"
  unfolding detectProtocol_def Let_def by (auto dest!: sw2 simp: take2_str)
lemma detect_ss: "startsWith (toLowerCase (trim lnk)) (str ''ss://'') \<Longrightarrow> detectProtocol lnk = Some ss"
  unfolding detectProtocol_def Let_def by (auto dest!: sw2 simp: take2_str)
lemma detect_hy2: "startsWith (toLowerCase (trim lnk)) (str ''hy2://'') \<or> startsWith (toLowerCase (trim lnk)) (str ''hysteria2://'') \<Longrightarrow> detectProtocol lnk = Some hy2"
  unfolding detectProtocol_def Let_def by (auto dest!: sw2 simp: take2_str)
lemma detect_tuic: "startsWith (toLowerCase (trim lnk)) (str ''tuic://'') \<Longrightarrow> detectProtocol lnk = Some tuic"
  unfolding detectProtocol_def Let_def by (auto dest!: sw2 simp: take2_str)
lemma detect_vless: "detectProtocol lnk = Some vless \<longleftrightarrow> startsWith (toLowerCase (trim lnk)) (str ''vless://'')"
  unfolding detectProtocol_def Let_def by auto
lemma detect_none: "detectProtocol lnk = None \<longleftrightarrow>
   \<not> (startsWith (toLowerCase (trim lnk)) (str ''vless://'') \<or> startsWith (toLowerCase (trim lnk)) (str ''vmess://'') \<or>
      startsWith (toLowerCase (trim lnk)) (str ''trojan://'') \<or> startsWith (toLowerCase (trim lnk)) (str ''ss://'') \<or>
      startsWith (toLowerCase (trim lnk)) (str ''hy2://'') \<or> startsWith (toLowerCase (trim lnk)) (str ''hysteria2://'') \<or>
      startsWith (toLowerCase (trim lnk)) (str ''tuic://''))"
  by (simp only: detectProtocol_def Let_def split: if_split) blast

lemma notYet_distinct: "notYetSupported p \<noteq> str ''Unsupported or invalid protocol''"
  by (cases p) (simp_all add: notYetSupported_def protocolName_def str_def cu_def)


lemma failure_fields:
  "ParseResult.success (failure lnk n m) = False"
  "ParseResult.error (failure lnk n m) = Some m"
  "ParseResult.outbound (failure lnk n m) = None"
  by (simp_all add: failure_def)

lemma notYet_names:
  "notYetSupported vmess = str ''Protocol \"vmess\" is not yet supported''"
  "notYetSupported trojan = str ''Protocol \"trojan\" is not yet supported''"
  "notYetSupported ss = str ''Protocol \"ss\" is not yet supported''"
  "notYetSupported hy2 = str ''Protocol \"hy2\" is not yet supported''"
  "notYetSupported tuic = str ''Protocol \"tuic\" is not yet supported''"
  by (simp_all add: notYetSupported_def protocolName_def str_def)

lemma parseProxyLink_unimplemented:
  "detectProtocol lnk = Some p \<Longrightarrow> p \<noteq> vless \<Longrightarrow>
   ParseResult.success (parseProxyLink lnk n) = False \<and>
   ParseResult.error (parseProxyLink lnk n) = Some (notYetSupported p)"
  by (cases p) (simp_all add: parseProxyLink_def failure_fields)

lemma parseProxyLink_unknown:
  "detectProtocol lnk = None \<Longrightarrow>
   ParseResult.success (parseProxyLink lnk n) = False \<and>
   ParseResult.error (parseProxyLink lnk n) = Some (str ''Unsupported or invalid protocol'')"
  by (simp add: parseProxyLink_def failure_fields)

lemma message_starts:
  "take 2 (str ''Empty link'') \<in> set vlessMessageStarts"
  "take 2 (str ''Link must start with vless://'') \<in> set vlessMessageStarts"
  "take 2 (str ''Invalid format: missing @ separator'') \<in> set vlessMessageStarts"
  "take 2 (str ''Invalid UUID format'') \<in> set vlessMessageStarts"
  "take 2 (str ''Invalid IPv6 address format'') \<in> set vlessMessageStarts"
  "take 2 (str ''Missing port after IPv6 address'') \<in> set vlessMessageStarts"
  "take 2 (str ''Missing port'') \<in> set vlessMessageStarts"
  "take 2 (str ''Missing server address'') \<in> set vlessMessageStarts"
  "take 2 (str ''Invalid port number'') \<in> set vlessMessageStarts"
  "take 2 (str ''Invalid security type: '' @ x) \<in> set vlessMessageStarts"
  "take 2 (str ''Reality requires public key (pbk)'') \<in> set vlessMessageStarts"
  "take 2 (str ''Invalid transport type: '' @ x) \<in> set vlessMessageStarts"
  "take 2 (str ''Parse error: '' @ x) \<in> set vlessMessageStarts"
  by (simp_all add: vlessMessageStarts_def str_def)

lemma map_sum_Inl_iff: "(map_sum id g x = Inl m) = (x = Inl m)"
  by (cases x) simp_all

lemma parseHostPort_messages:
  "parseHostPort hp = Inl m \<Longrightarrow> take 2 m \<in> set vlessMessageStarts"
  by (auto simp: parseHostPort_def Let_def message_starts split: if_splits option.splits)

lemma vlessTlsConfig_messages:
  "vlessTlsConfig params sec srv = Inl m \<Longrightarrow> take 2 m \<in> set vlessMessageStarts"
  by (auto simp: vlessTlsConfig_def Let_def message_starts split: if_splits option.splits)

lemma vlessFromParams_messages:
  "vlessFromParams lnk n tg srv p uid qs = Inr r \<Longrightarrow> ParseResult.error r = Some m \<Longrightarrow>
   take 2 m \<in> set vlessMessageStarts"
  unfolding vlessFromParams_def Let_def
  by (auto simp: failure_def message_starts map_sum_Inl_iff simp del: take_append
      split: if_splits sum.splits dest!: vlessTlsConfig_messages)

lemma vlessTry_messages:
  "vlessTry lnk n d t = Inr r \<Longrightarrow> ParseResult.error r = Some m \<Longrightarrow>
   take 2 m \<in> set vlessMessageStarts"
  unfolding vlessTry_def Let_def
  by (auto simp: failure_def message_starts simp del: take_append
      split: option.splits if_splits sum.splits number.splits prod.splits
      dest: vlessFromParams_messages parseHostPort_messages)

lemma parseVlessLink_messages:
  "ParseResult.error (parseVlessLink lnk n d) = Some m \<Longrightarrow> take 2 m \<in> set vlessMessageStarts"
proof (cases "vlessTry lnk n d (trim lnk)")
  case (Inl e)
  assume "ParseResult.error (parseVlessLink lnk n d) = Some m"
  with Inl show ?thesis
    by (auto simp: parseVlessLink_def Let_def failure_def message_starts simp del: take_append
        split: if_splits)
next
  case (Inr r)
  assume a: "ParseResult.error (parseVlessLink lnk n d) = Some m"
  show ?thesis
  proof (cases "trim lnk = [] \<or> \<not> startsWith (trim lnk) (str ''vless://'')")
    case True
    with a show ?thesis
      by (auto simp: parseVlessLink_def Let_def failure_def message_starts simp del: take_append
        split: if_splits)
  next
    case False
    with a Inr have "ParseResult.error r = Some m" by (simp add: parseVlessLink_def Let_def)
    with Inr show ?thesis by (rule vlessTry_messages)
  qed
qed

lemma dispatcher_message_starts:
  "take 2 (notYetSupported p) \<notin> set vlessMessageStarts"
  "take 2 (str ''Unsupported or invalid protocol'') \<notin> set vlessMessageStarts"
  by (simp_all add: notYetSupported_def vlessMessageStarts_def str_def cu_def)

lemma parseVlessLink_error_not_dispatcher:
  "ParseResult.error (parseVlessLink lnk n d) \<noteq> Some (notYetSupported p)"
  "ParseResult.error (parseVlessLink lnk n d) \<noteq> Some (str ''Unsupported or invalid protocol'')"
  using parseVlessLink_messages[of lnk n d] dispatcher_message_starts by blast+

text \<open>
  C9. \<open>parseProxyLink\<close> has three kinds of outcome, decided by the prefix of the trimmed,
  lower-cased link. With \<open>vless://\<close> the result is that of \<open>parseVlessLink\<close>, and no other
  link reaches the link decoder. With \<open>vmess://\<close>, \<open>trojan://\<close>, \<open>ss://\<close>, \<open>hy2://\<close> or
  \<open>hysteria2://\<close>, or \<open>tuic://\<close> the result has \<open>success = false\<close> and the error
  \<open>Protocol "<name>" is not yet supported\<close>, the name being \<open>vmess\<close>, \<open>trojan\<close>, \<open>ss\<close>,
  \<open>hy2\<close> or \<open>tuic\<close>. With none of these prefixes the result has \<open>success = false\<close> and the
  error \<open>Unsupported or invalid protocol\<close>. The error of a recognized but unimplemented
  protocol, the error of an unrecognized link and the error of any result of the link
  decoder differ from one another.
\<close>

theorem parseProxyLink_outcomes:
  "(startsWith (toLowerCase (trim lnk)) (str ''vless://'') \<longrightarrow>
      parseProxyLink lnk n = parseVlessLink lnk n None) \<and>
   (startsWith (toLowerCase (trim lnk)) (str ''vmess://'') \<longrightarrow>
      ParseResult.success (parseProxyLink lnk n) = False \<and>
      ParseResult.error (parseProxyLink lnk n) = Some (str ''Protocol \"vmess\" is not yet supported'')) \<and>
   (startsWith (toLowerCase (trim lnk)) (str ''trojan://'') \<longrightarrow>
      ParseResult.success (parseProxyLink lnk n) = False \<and>
      ParseResult.error (parseProxyLink lnk n) = Some (str ''Protocol \"trojan\" is not yet supported'')) \<and>
   (startsWith (toLowerCase (trim lnk)) (str ''ss://'') \<longrightarrow>
      ParseResult.success (parseProxyLink lnk n) = False \<and>
      ParseResult.error (parseProxyLink lnk n) = Some (str ''Protocol \"ss\" is not yet supported'')) \<and>
   (startsWith (toLowerCase (trim lnk)) (str ''hy2://'') \<or>
    startsWith (toLowerCase (trim lnk)) (str ''hysteria2://'') \<longrightarrow>
      ParseResult.success (parseProxyLink lnk n) = False \<and>
      ParseResult.error (parseProxyLink lnk n) = Some (str ''Protocol \"hy2\" is not yet supported'')) \<and>
   (startsWith (toLowerCase (trim lnk)) (str ''tuic://'') \<longrightarrow>
      ParseResult.success (parseProxyLink lnk n) = False \<and>
      ParseResult.error (parseProxyLink lnk n) = Some (str ''Protocol \"tuic\" is not yet supported'')) \<and>
   (\<not> (startsWith (toLowerCase (trim lnk)) (str ''vless://'') \<or>
       startsWith (toLowerCase (trim lnk)) (str ''vmess://'') \<or>
       startsWith (toLowerCase (trim lnk)) (str ''trojan://'') \<or>
       startsWith (toLowerCase (trim lnk)) (str ''ss://'') \<or>
       startsWith (toLowerCase (trim lnk)) (str ''hy2://'') \<or>
       startsWith (toLowerCase (trim lnk)) (str ''hysteria2://'') \<or>
       startsWith (toLowerCase (trim lnk)) (str ''tuic://'')) \<longrightarrow>
      ParseResult.success (parseProxyLink lnk n) = False \<and>
      ParseResult.error (parseProxyLink lnk n) = Some (str ''Unsupported or invalid protocol'')) \<and>
   (detectProtocol l1 = Some p \<and> p \<noteq> vless \<and> detectProtocol l2 = None \<longrightarrow>
      ParseResult.error (parseProxyLink l1 n1) \<noteq> ParseResult.error (parseProxyLink l2 n2)) \<and>
   (detectProtocol l1 = Some p \<and> p \<noteq> vless \<longrightarrow>
      ParseResult.error (parseVlessLink l3 n3 d3) \<noteq> ParseResult.error (parseProxyLink l1 n1)) \<and>
   (detectProtocol l2 = None \<longrightarrow>
      ParseResult.error (parseVlessLink l3 n3 d3) \<noteq> ParseResult.error (parseProxyLink l2 n2))"
proof -
  have c1: "startsWith (toLowerCase (trim lnk)) (str ''vless://'') \<longrightarrow>
      parseProxyLink lnk n = parseVlessLink lnk n None"
    using detect_vless[of lnk] by (auto simp: parseProxyLink_def)
  have c2: "startsWith (toLowerCase (trim lnk)) (str ''vmess://'') \<longrightarrow>
      ParseResult.success (parseProxyLink lnk n) = False \<and>
      ParseResult.error (parseProxyLink lnk n) = Some (str ''Protocol \"vmess\" is not yet supported'')"
    using parseProxyLink_unimplemented[OF detect_vmess, of lnk n] by (auto simp: notYet_names)
  have c3: "startsWith (toLowerCase (trim lnk)) (str ''trojan://'') \<longrightarrow>
      ParseResult.success (parseProxyLink lnk n) = False \<and>
      ParseResult.error (parseProxyLink lnk n) = Some (str ''Protocol \"trojan\" is not yet supported'')"
    using parseProxyLink_unimplemented[OF detect_trojan, of lnk n] by (auto simp: notYet_names)
  have c4: "startsWith (toLowerCase (trim lnk)) (str ''ss://'') \<longrightarrow>
      ParseResult.success (parseProxyLink lnk n) = False \<and>
      ParseResult.error (parseProxyLink lnk n) = Some (str ''Protocol \"ss\" is not yet supported'')"
    using parseProxyLink_unimplemented[OF detect_ss, of lnk n] by (auto simp: notYet_names)
  have c5: "startsWith (toLowerCase (trim lnk)) (str ''hy2://'') \<or>
    startsWith (toLowerCase (trim lnk)) (str ''hysteria2://'') \<longrightarrow>
      ParseResult.success (parseProxyLink lnk n) = False \<and>
      ParseResult.error (parseProxyLink lnk n) = Some (str ''Protocol \"hy2\" is not yet supported'')"
    using parseProxyLink_unimplemented[OF detect_hy2, of lnk n] by (auto simp: notYet_names)
  have c6: "startsWith (toLowerCase (trim lnk)) (str ''tuic://'') \<longrightarrow>
      ParseResult.success (parseProxyLink lnk n) = False \<and>
      ParseResult.error (parseProxyLink lnk n) = Some (str ''Protocol \"tuic\" is not yet supported'')"
    using parseProxyLink_unimplemented[OF detect_tuic, of lnk n] by (auto simp: notYet_names)
  have c7: "\<not> (startsWith (toLowerCase (trim lnk)) (str ''vless://'') \<or>
       startsWith (toLowerCase (trim lnk)) (str ''vmess://'') \<or>
       startsWith (toLowerCase (trim lnk)) (str ''trojan://'') \<or>
       startsWith (toLowerCase (trim lnk)) (str ''ss://'') \<or>
       startsWith (toLowerCase (trim lnk)) (str ''hy2://'') \<or>
       startsWith (toLowerCase (trim lnk)) (str ''hysteria2://'') \<or>
       startsWith (toLowerCase (trim lnk)) (str ''tuic://'')) \<longrightarrow>
      ParseResult.success (parseProxyLink lnk n) = False \<and>
      ParseResult.error (parseProxyLink lnk n) = Some (str ''Unsupported or invalid protocol'')"
    using detect_none[of lnk] parseProxyLink_unknown[of lnk n] by blast
  have c8: "detectProtocol l1 = Some p \<and> p \<noteq> vless \<and> detectProtocol l2 = None \<longrightarrow>
      ParseResult.error (parseProxyLink l1 n1) \<noteq> ParseResult.error (parseProxyLink l2 n2)"
    using parseProxyLink_unimplemented[of l1 p n1] parseProxyLink_unknown[of l2 n2] notYet_distinct[of p] by auto
  have c9: "detectProtocol l1 = Some p \<and> p \<noteq> vless \<longrightarrow>
      ParseResult.error (parseVlessLink l3 n3 d3) \<noteq> ParseResult.error (parseProxyLink l1 n1)"
    using parseProxyLink_unimplemented[of l1 p n1] parseVlessLink_error_not_dispatcher(1)[of l3 n3 d3 p] by auto
  have c10: "detectProtocol l2 = None \<longrightarrow>
      ParseResult.error (parseVlessLink l3 n3 d3) \<noteq> ParseResult.error (parseProxyLink l2 n2)"
    using parseProxyLink_unknown[of l2 n2] parseVlessLink_error_not_dispatcher(2)[of l3 n3 d3] by auto
  show ?thesis
    apply (rule conjI, rule c1)
    apply (rule conjI, rule c2)
    apply (rule conjI, rule c3)
    apply (rule conjI, rule c4)
    apply (rule conjI, rule c5)
    apply (rule conjI, rule c6)
    apply (rule conjI, rule c7)
    apply (rule conjI, rule c8)
    apply (rule conjI, rule c9)
    apply (rule c10)
    done
qed

theorem parseProxyLink_outcomes_witness:
  "startsWith (toLowerCase (trim (str '' VMESS://abc''))) (str ''vmess://'') \<and>
   (ParseResult.success (parseProxyLink (str '' VMESS://abc'') 3) = False \<and>
     ParseResult.error (parseProxyLink (str '' VMESS://abc'') 3) =
       Some (str ''Protocol \"vmess\" is not yet supported'')) \<and>
   startsWith (toLowerCase (trim (str ''hysteria2://h''))) (str ''hysteria2://'') \<and>
   (ParseResult.success (parseProxyLink (str ''hysteria2://h'') 1) = False \<and>
     ParseResult.error (parseProxyLink (str ''hysteria2://h'') 1) =
       Some (str ''Protocol \"hy2\" is not yet supported'')) \<and>
   startsWith (toLowerCase (trim (str ''Vless://x''))) (str ''vless://'') \<and>
   parseProxyLink (str ''Vless://x'') 2 = parseVlessLink (str ''Vless://x'') 2 None \<and>
   \<not> (startsWith (toLowerCase (trim (str ''http://x''))) (str ''vless://'') \<or>
       startsWith (toLowerCase (trim (str ''http://x''))) (str ''vmess://'') \<or>
       startsWith (toLowerCase (trim (str ''http://x''))) (str ''trojan://'') \<or>
       startsWith (toLowerCase (trim (str ''http://x''))) (str ''ss://'') \<or>
       startsWith (toLowerCase (trim (str ''http://x''))) (str ''hy2://'') \<or>
       startsWith (toLowerCase (trim (str ''http://x''))) (str ''hysteria2://'') \<or>
       startsWith (toLowerCase (trim (str ''http://x''))) (str ''tuic://'')) \<and>
   (ParseResult.success (parseProxyLink (str ''http://x'') 4) = False \<and>
     ParseResult.error (parseProxyLink (str ''http://x'') 4) =
       Some (str ''Unsupported or invalid protocol'')) \<and>
   ParseResult.error (parseProxyLink (str '' VMESS://abc'') 3) \<noteq>
     ParseResult.error (parseProxyLink (str ''http://x'') 4)"
proof -
  note t = parseProxyLink_outcomes
  have a: "startsWith (toLowerCase (trim (str '' VMESS://abc''))) (str ''vmess://'')"
    by code_simp
  have r1: "ParseResult.success (parseProxyLink (str '' VMESS://abc'') 3) = False \<and>
     ParseResult.error (parseProxyLink (str '' VMESS://abc'') 3) =
       Some (str ''Protocol \"vmess\" is not yet supported'')"
    by (rule t[where lnk="str '' VMESS://abc''" and n=3, THEN conjunct2, THEN conjunct1, THEN mp, OF a])
  have b: "startsWith (toLowerCase (trim (str ''hysteria2://h''))) (str ''hysteria2://'')"
    by code_simp
  have r2: "ParseResult.success (parseProxyLink (str ''hysteria2://h'') 1) = False \<and>
     ParseResult.error (parseProxyLink (str ''hysteria2://h'') 1) =
       Some (str ''Protocol \"hy2\" is not yet supported'')"
    by (rule t[where lnk="str ''hysteria2://h''" and n=1, THEN conjunct2, THEN conjunct2, THEN conjunct2, THEN conjunct2, THEN conjunct1, THEN mp, OF disjI2[OF b]])
  have c: "startsWith (toLowerCase (trim (str ''Vless://x''))) (str ''vless://'')"
    by code_simp
  have r3: "parseProxyLink (str ''Vless://x'') 2 = parseVlessLink (str ''Vless://x'') 2 None"
    by (rule t[where lnk="str ''Vless://x''" and n=2, THEN conjunct1, THEN mp, OF c])
  have d: "\<not> (startsWith (toLowerCase (trim (str ''http://x''))) (str ''vless://'') \<or>
       startsWith (toLowerCase (trim (str ''http://x''))) (str ''vmess://'') \<or>
       startsWith (toLowerCase (trim (str ''http://x''))) (str ''trojan://'') \<or>
       startsWith (toLowerCase (trim (str ''http://x''))) (str ''ss://'') \<or>
       startsWith (toLowerCase (trim (str ''http://x''))) (str ''hy2://'') \<or>
       startsWith (toLowerCase (trim (str ''http://x''))) (str ''hysteria2://'') \<or>
       startsWith (toLowerCase (trim (str ''http://x''))) (str ''tuic://''))"
    by code_simp
  have r4: "ParseResult.success (parseProxyLink (str ''http://x'') 4) = False \<and>
     ParseResult.error (parseProxyLink (str ''http://x'') 4) =
       Some (str ''Unsupported or invalid protocol'')"
    by (rule t[where lnk="str ''http://x''" and n=4, THEN conjunct2, THEN conjunct2, THEN conjunct2, THEN conjunct2, THEN conjunct2, THEN conjunct2, THEN conjunct1, THEN mp, OF d])
  have e1: "detectProtocol (str '' VMESS://abc'') = Some vmess"
    by code_simp
  have e2: "vmess \<noteq> vless"
    by simp
  have e3: "detectProtocol (str ''http://x'') = None"
    by code_simp
  have r5: "ParseResult.error (parseProxyLink (str '' VMESS://abc'') 3) \<noteq>
     ParseResult.error (parseProxyLink (str ''http://x'') 4)"
    by (rule t[where ?l1.0="str '' VMESS://abc''" and p=vmess and ?l2.0="str ''http://x''" and ?n1.0=3 and ?n2.0=4, THEN conjunct2, THEN conjunct2, THEN conjunct2, THEN conjunct2, THEN conjunct2, THEN conjunct2, THEN conjunct2, THEN conjunct1, THEN mp,
          OF conjI[OF e1 conjI[OF e2 e3]]])
  show ?thesis
    apply (rule conjI, rule a)
    apply (rule conjI, rule r1)
    apply (rule conjI, rule b)
    apply (rule conjI, rule r2)
    apply (rule conjI, rule c)
    apply (rule conjI, rule r3)
    apply (rule conjI, rule d)
    apply (rule conjI, rule r4)
    apply (rule r5)
    done
qed

subsection \<open>The batch coordinator\<close>

lemma errorLink_length: "length (errorLink line) \<le> 53"
  by (simp add: errorLink_def slice_def str_def)

lemma errorLink_short: "length line \<le> 50 \<Longrightarrow> errorLink line = line"
  by (simp add: errorLink_def)

lemma errorLink_long: "50 < length line \<Longrightarrow> errorLink line = take 50 line @ str ''...''"
  by (simp add: errorLink_def slice_def)

lemma linksLoop_counts:
  "linksLoop i ls (obs, errs, c) = (obs', errs', c') \<Longrightarrow>
   length obs' + length errs' + length (filter (\<lambda>l. trim l = [] \<or> isComment (trim l)) ls)
     = length obs + length errs + length ls"
proof (induction ls arbitrary: i obs errs c)
  case Nil then show ?case by simp
next
  case (Cons l ls)
  show ?case
  proof (cases "trim l = [] \<or> isComment (trim l)")
    case True
    with Cons.prems have "linksLoop (i + 1) ls (obs, errs, c) = (obs', errs', c')"
      by (simp add: Let_def)
    from Cons.IH[OF this] True show ?thesis by simp
  next
    case False
    show ?thesis
    proof (cases "if ParseResult.success (parseProxyLink (trim l) (int i + 1))
                  then ParseResult.outbound (parseProxyLink (trim l) (int i + 1)) else None")
      case None
      with False Cons.prems have "linksLoop (i + 1) ls (obs,
          errs @ [\<lparr>ParseError.lineNumber = int i + 1, ParseError.link = errorLink (trim l),
                   ParseError.error = orElse (ParseResult.error (parseProxyLink (trim l) (int i + 1))) (str ''Unknown error'')\<rparr>], c) = (obs', errs', c')"
        by (simp add: Let_def)
      from Cons.IH[OF this] False show ?thesis by simp
    next
      case (Some ob)
      with False Cons.prems have "linksLoop (i + 1) ls (obs @ [retag ob c], errs, c + 1) = (obs', errs', c')"
        by (simp add: Let_def)
      from Cons.IH[OF this] False show ?thesis by simp
    qed
  qed
qed

lemma linksLoop_errors:
  "linksLoop i ls (obs, errs, c) = (obs', errs', c') \<Longrightarrow> e \<in> set errs' \<Longrightarrow>
   e \<in> set errs \<or>
   (\<exists>k<length ls. trim (ls ! k) \<noteq> [] \<and> \<not> isComment (trim (ls ! k)) \<and>
      ParseError.lineNumber e = int (i + k) + 1 \<and> ParseError.link e = errorLink (trim (ls ! k)))"
proof (induction ls arbitrary: i obs errs c)
  case Nil then show ?case by simp
next
  case (Cons l ls)
  let ?Q = "\<lambda>i ls. (\<exists>k<length ls. trim (ls ! k) \<noteq> [] \<and> \<not> isComment (trim (ls ! k)) \<and>
      ParseError.lineNumber e = int (i + k) + 1 \<and> ParseError.link e = errorLink (trim (ls ! k)))"
  have shift: "?Q (i + 1) ls \<Longrightarrow> ?Q i (l # ls)"
  proof -
    assume "?Q (i + 1) ls"
    then obtain k where k: "k < length ls" "trim (ls ! k) \<noteq> []" "\<not> isComment (trim (ls ! k))"
      "ParseError.lineNumber e = int (i + 1 + k) + 1" "ParseError.link e = errorLink (trim (ls ! k))" by blast
    then have "Suc k < length (l # ls) \<and> trim ((l # ls) ! Suc k) \<noteq> [] \<and> \<not> isComment (trim ((l # ls) ! Suc k)) \<and>
      ParseError.lineNumber e = int (i + Suc k) + 1 \<and> ParseError.link e = errorLink (trim ((l # ls) ! Suc k))" by simp
    then show "?Q i (l # ls)" by blast
  qed
  show ?case
  proof (cases "trim l = [] \<or> isComment (trim l)")
    case True
    with Cons.prems have "linksLoop (i + 1) ls (obs, errs, c) = (obs', errs', c')"
      by (simp add: Let_def)
    from Cons.IH[OF this Cons.prems(2)] shift show ?thesis by blast
  next
    case False
    show ?thesis
    proof (cases "if ParseResult.success (parseProxyLink (trim l) (int i + 1))
                  then ParseResult.outbound (parseProxyLink (trim l) (int i + 1)) else None")
      case None
      define e0 where "e0 = \<lparr>ParseError.lineNumber = int i + 1, ParseError.link = errorLink (trim l),
                   ParseError.error = orElse (ParseResult.error (parseProxyLink (trim l) (int i + 1))) (str ''Unknown error'')\<rparr>"
      from None False Cons.prems have "linksLoop (i + 1) ls (obs, errs @ [e0], c) = (obs', errs', c')"
        by (simp add: Let_def e0_def)
      from Cons.IH[OF this Cons.prems(2)]
      have "e \<in> set errs \<or> e = e0 \<or> ?Q (i + 1) ls" by auto
      moreover have "e = e0 \<Longrightarrow> ?Q i (l # ls)"
      proof -
        assume "e = e0"
        then have "0 < length (l # ls) \<and> trim ((l # ls) ! 0) \<noteq> [] \<and> \<not> isComment (trim ((l # ls) ! 0)) \<and>
          ParseError.lineNumber e = int (i + 0) + 1 \<and> ParseError.link e = errorLink (trim ((l # ls) ! 0))"
          using False by (simp add: e0_def)
        then show ?thesis by blast
      qed
      ultimately show ?thesis using shift by blast
    next
      case (Some ob)
      with False Cons.prems have "linksLoop (i + 1) ls (obs @ [retag ob c], errs, c + 1) = (obs', errs', c')"
        by (simp add: Let_def)
      from Cons.IH[OF this Cons.prems(2)] shift show ?thesis by blast
    qed
  qed
qed

lemma filter_nth_origin:
  "k < length (filter P xs) \<Longrightarrow>
   \<exists>j<length xs. xs ! j = filter P xs ! k \<and> P (xs ! j) \<and> length (filter P (take j xs)) = k"
proof (induction xs arbitrary: k)
  case Nil then show ?case by simp
next
  case (Cons x xs)
  show ?case
  proof (cases "P x")
    case False
    with Cons.prems have "k < length (filter P xs)" by simp
    from Cons.IH[OF this] obtain j where j: "j < length xs" "xs ! j = filter P xs ! k" "P (xs ! j)"
      "length (filter P (take j xs)) = k" by blast
    with False have "Suc j < length (x # xs) \<and> (x # xs) ! Suc j = filter P (x # xs) ! k \<and>
      P ((x # xs) ! Suc j) \<and> length (filter P (take (Suc j) (x # xs))) = k" by simp
    then show ?thesis by blast
  next
    case True
    show ?thesis
    proof (cases k)
      case 0
      with True have "0 < length (x # xs) \<and> (x # xs) ! 0 = filter P (x # xs) ! k \<and>
        P ((x # xs) ! 0) \<and> length (filter P (take 0 (x # xs))) = k" by simp
      then show ?thesis by blast
    next
      case (Suc k')
      with True Cons.prems have "k' < length (filter P xs)" by simp
      from Cons.IH[OF this] obtain j where j: "j < length xs" "xs ! j = filter P xs ! k'" "P (xs ! j)"
        "length (filter P (take j xs)) = k'" by blast
      with True Suc have "Suc j < length (x # xs) \<and> (x # xs) ! Suc j = filter P (x # xs) ! k \<and>
        P ((x # xs) ! Suc j) \<and> length (filter P (take (Suc j) (x # xs))) = k" by simp
      then show ?thesis by blast
    qed
  qed
qed

lemma filter_length_all: "length (filter P ys) = length ys \<longleftrightarrow> (\<forall>y\<in>set ys. P y)"
proof (induction ys)
  case Nil then show ?case by simp
next
  case (Cons y ys)
  have le: "length (filter P ys) \<le> length ys" by simp
  show ?case
  proof (cases "P y")
    case True
    with Cons show ?thesis by simp
  next
    case False
    from le have "length (filter P ys) \<noteq> Suc (length ys)" by arith
    with False have "length (filter P (y # ys)) \<noteq> length (y # ys)" by simp
    with False show ?thesis by auto
  qed
qed

lemma take_all_nth: "j \<le> length xs \<Longrightarrow> (\<forall>y\<in>set (take j xs). P y) \<longleftrightarrow> (\<forall>i<j. P (xs ! i))"
  by (simp add: all_set_conv_all_nth min_def)

lemma parseProxyLinks_errors:
  assumes "e \<in> set (BatchParseResult.errors (parseProxyLinks text))"
  shows "\<exists>j<length (textLines text).
           \<not> isBlank (textLines text ! j) \<and> \<not> isComment (trim (textLines text ! j)) \<and>
           ParseError.link e = errorLink (trim (textLines text ! j)) \<and>
           ParseError.lineNumber e =
             int (length (filter (\<lambda>l. \<not> isBlank l) (take j (textLines text)))) + 1"
proof -
  obtain obs errs c where r: "linksLoop 0 (nonBlankLines text) ([], [], 1) = (obs, errs, c)"
    by (metis prod_cases3)
  then have "BatchParseResult.errors (parseProxyLinks text) = errs" by (simp add: parseProxyLinks_def Let_def)
  with assms have "e \<in> set errs" by simp
  from linksLoop_errors[OF r this]
  obtain k where k: "k < length (nonBlankLines text)" "\<not> isComment (trim (nonBlankLines text ! k))"
    "ParseError.lineNumber e = int k + 1" "ParseError.link e = errorLink (trim (nonBlankLines text ! k))"
    by auto
  have nb: "nonBlankLines text = filter (\<lambda>l. \<not> isBlank l) (textLines text)"
    by (simp add: nonBlankLines_def textLines_def isBlank_def)
  from k(1) filter_nth_origin[of k "\<lambda>l. \<not> isBlank l" "textLines text"]
  obtain j where j: "j < length (textLines text)" "textLines text ! j = nonBlankLines text ! k"
    "\<not> isBlank (textLines text ! j)" "length (filter (\<lambda>l. \<not> isBlank l) (take j (textLines text))) = k"
    unfolding nb by blast
  with k show ?thesis by auto
qed


lemma parseProxyLinks_total:
  "totalLinks (parseProxyLinks text) =
     successCount (parseProxyLinks text) + errorCount (parseProxyLinks text) +
     length (filter (\<lambda>l. isComment (trim l)) (nonBlankLines text))"
proof -
  obtain obs errs c where r: "linksLoop 0 (nonBlankLines text) ([], [], 1) = (obs, errs, c)"
    by (metis prod_cases3)
  have "filter (\<lambda>l. trim l = [] \<or> isComment (trim l)) (nonBlankLines text) =
        filter (\<lambda>l. isComment (trim l)) (nonBlankLines text)"
    by (rule filter_cong) (auto simp: nonBlankLines_def)
  with linksLoop_counts[OF r] show ?thesis
    using r by (simp add: parseProxyLinks_def Let_def)
qed

text \<open>
  C3. On the two-line input made of the comment \<open># my servers\<close> and one valid
  \<open>vless://\<close> link, \<open>parseProxyLinks\<close> returns \<open>totalLinks = 2\<close> with \<open>successCount = 1\<close> and
  \<open>errorCount = 0\<close>: the comment line is skipped by the loop but counted in the total, so
  \<open>totalLinks = successCount + errorCount\<close> fails (see \<open>parseProxyLinks_total\<close> for the
  count in general).
\<close>

theorem parseProxyLinks_total_counts_comments:
  "totalLinks (parseProxyLinks (str ''# my servers'' @ [0xA] @
      str ''vless://11111111-1111-1111-1111-111111111111@example.com:443'')) = 2 \<and>
   successCount (parseProxyLinks (str ''# my servers'' @ [0xA] @
      str ''vless://11111111-1111-1111-1111-111111111111@example.com:443'')) = 1 \<and>
   errorCount (parseProxyLinks (str ''# my servers'' @ [0xA] @
      str ''vless://11111111-1111-1111-1111-111111111111@example.com:443'')) = 0"
  by code_simp

text \<open>
  C4, as stated, fails: a failing line of 56 units is recorded as its first 50 units
  followed by \<open>...\<close>, 53 units in all.
\<close>

theorem parseProxyLinks_error_text_53:
  "BatchParseResult.errors (parseProxyLinks (str ''vless://11111111-1111-1111-1111-111111111111@example.com'')) =
     [\<lparr>ParseError.lineNumber = 1,
       ParseError.link = str ''vless://11111111-1111-1111-1111-111111111111@examp...'',
       ParseError.error = str ''Missing port''\<rparr>] \<and>
   length (str ''vless://11111111-1111-1111-1111-111111111111@examp...'') = 53"
  by code_simp

text \<open>
  C4, amended. The text recorded in every error diagnostic of \<open>parseProxyLinks\<close> has at
  most 53 units: it is the trimmed line itself when that has at most 50 units, and
  otherwise its first 50 units followed by the three units \<open>...\<close>.
\<close>

theorem parseProxyLinks_error_text:
  "\<forall>e\<in>set (BatchParseResult.errors (parseProxyLinks text)).
     length (ParseError.link e) \<le> 53 \<and>
     (\<exists>j<length (textLines text).
        ParseError.link e = (if 50 < length (trim (textLines text ! j))
                  then take 50 (trim (textLines text ! j)) @ str ''...''
                  else trim (textLines text ! j)))"
proof
  fix e assume e: "e \<in> set (BatchParseResult.errors (parseProxyLinks text))"
  from parseProxyLinks_errors[OF e] obtain j where j: "j < length (textLines text)"
    "ParseError.link e = errorLink (trim (textLines text ! j))" by blast
  have "length (ParseError.link e) \<le> 53" using j(2) errorLink_length by simp
  moreover have "ParseError.link e = (if 50 < length (trim (textLines text ! j))
                  then take 50 (trim (textLines text ! j)) @ str ''...''
                  else trim (textLines text ! j))"
    using j(2) by (simp add: errorLink_def slice_def)
  ultimately show "length (ParseError.link e) \<le> 53 \<and>
     (\<exists>j<length (textLines text).
        ParseError.link e = (if 50 < length (trim (textLines text ! j))
                  then take 50 (trim (textLines text ! j)) @ str ''...''
                  else trim (textLines text ! j)))"
    using j(1) by blast
qed

theorem parseProxyLinks_error_text_witness:
  "\<lparr>ParseError.lineNumber = 1, ParseError.link = str ''bad'', ParseError.error = str ''Unsupported or invalid protocol''\<rparr>
     \<in> set (BatchParseResult.errors (parseProxyLinks (str ''bad''))) \<and>
   length (ParseError.link \<lparr>ParseError.lineNumber = 1, ParseError.link = str ''bad'',
                   ParseError.error = str ''Unsupported or invalid protocol''\<rparr>) \<le> 53"
proof -
  have m: "\<lparr>ParseError.lineNumber = 1, ParseError.link = str ''bad'', ParseError.error = str ''Unsupported or invalid protocol''\<rparr>
     \<in> set (BatchParseResult.errors (parseProxyLinks (str ''bad'')))"
    by code_simp
  from parseProxyLinks_error_text[rule_format, OF m, THEN conjunct1] m show ?thesis
    by (rule_tac conjI)
qed

text \<open>
  C10. Every error diagnostic of \<open>parseProxyLinks\<close> comes from a non-blank line \<open>j\<close>
  (counted from 0) of the input, and its \<open>lineNumber\<close> is one more than the number of
  non-blank lines before line \<open>j\<close>: the 1-based position among the non-blank lines. It
  equals the position \<open>j + 1\<close> in the original text exactly when no earlier line is blank.
\<close>

theorem parseProxyLinks_lineNumber:
  "\<forall>e\<in>set (BatchParseResult.errors (parseProxyLinks text)).
     \<exists>j<length (textLines text).
       \<not> isBlank (textLines text ! j) \<and>
       ParseError.link e = errorLink (trim (textLines text ! j)) \<and>
       ParseError.lineNumber e =
         int (length (filter (\<lambda>l. \<not> isBlank l) (take j (textLines text)))) + 1 \<and>
       (ParseError.lineNumber e = int j + 1 \<longleftrightarrow> (\<forall>i<j. \<not> isBlank (textLines text ! i)))"
proof
  fix e assume e: "e \<in> set (BatchParseResult.errors (parseProxyLinks text))"
  from parseProxyLinks_errors[OF e] obtain j where j: "j < length (textLines text)"
    "\<not> isBlank (textLines text ! j)"
    "ParseError.link e = errorLink (trim (textLines text ! j))"
    "ParseError.lineNumber e =
       int (length (filter (\<lambda>l. \<not> isBlank l) (take j (textLines text)))) + 1" by blast
  have "length (filter (\<lambda>l. \<not> isBlank l) (take j (textLines text))) = j \<longleftrightarrow>
        (\<forall>i<j. \<not> isBlank (textLines text ! i))"
    using filter_length_all[of "\<lambda>l. \<not> isBlank l" "take j (textLines text)"]
      take_all_nth[of j "textLines text" "\<lambda>l. \<not> isBlank l"] j(1)
    by (simp add: min_def)
  then have "ParseError.lineNumber e = int j + 1 \<longleftrightarrow> (\<forall>i<j. \<not> isBlank (textLines text ! i))"
    using j(4) by simp
  with j show "\<exists>j<length (textLines text).
       \<not> isBlank (textLines text ! j) \<and>
       ParseError.link e = errorLink (trim (textLines text ! j)) \<and>
       ParseError.lineNumber e =
         int (length (filter (\<lambda>l. \<not> isBlank l) (take j (textLines text)))) + 1 \<and>
       (ParseError.lineNumber e = int j + 1 \<longleftrightarrow> (\<forall>i<j. \<not> isBlank (textLines text ! i)))"
    by blast
qed


theorem parseProxyLinks_lineNumber_witness:
  "\<lparr>ParseError.lineNumber = 1, ParseError.link = str ''bad'', ParseError.error = str ''Unsupported or invalid protocol''\<rparr>
     \<in> set (BatchParseResult.errors (parseProxyLinks ([0xA] @ str ''bad''))) \<and>
   textLines ([0xA] @ str ''bad'') = [[], str ''bad''] \<and>
   (\<exists>j<length (textLines ([0xA] @ str ''bad'')).
       \<not> isBlank (textLines ([0xA] @ str ''bad'') ! j) \<and>
       (1::int) = int (length (filter (\<lambda>l. \<not> isBlank l) (take j (textLines ([0xA] @ str ''bad''))))) + 1 \<and>
       ((1::int) = int j + 1 \<longleftrightarrow> (\<forall>i<j. \<not> isBlank (textLines ([0xA] @ str ''bad'') ! i))))"
proof -
  have m: "\<lparr>ParseError.lineNumber = 1, ParseError.link = str ''bad'', ParseError.error = str ''Unsupported or invalid protocol''\<rparr>
     \<in> set (BatchParseResult.errors (parseProxyLinks ([0xA] @ str ''bad'')))"
    by code_simp
  have t: "textLines ([0xA] @ str ''bad'') = [[], str ''bad'']"
    by code_simp
  from parseProxyLinks_lineNumber[rule_format, OF m]
  have "\<exists>j<length (textLines ([0xA] @ str ''bad'')).
       \<not> isBlank (textLines ([0xA] @ str ''bad'') ! j) \<and>
       (1::int) = int (length (filter (\<lambda>l. \<not> isBlank l) (take j (textLines ([0xA] @ str ''bad''))))) + 1 \<and>
       ((1::int) = int j + 1 \<longleftrightarrow> (\<forall>i<j. \<not> isBlank (textLines ([0xA] @ str ''bad'') ! i)))"
    by (simp only: ParseError.select_convs) blast
  with m t show ?thesis by (intro conjI)
qed

subsection \<open>The link decoder\<close>

lemma js_split_nonempty: "js_split c s \<noteq> []"
  by (induction s) (auto split: list.splits)


lemma second_part_js_split_notin: "c \<notin> set s \<Longrightarrow> second_part (js_split c s) = None"
proof (induction s)
  case Nil show ?case by (simp add: second_part_def)
next
  case (Cons x xs)
  then show ?case using js_split_nonempty[of c xs]
    by (auto simp: second_part_def split: list.splits)
qed

lemma lastIndexOf_None: "lastIndexOf s c = None \<longleftrightarrow> c \<notin> set s"
  by (induction s) (auto split: option.splits)

lemma lastIndexOf_append: "c \<notin> set b \<Longrightarrow> lastIndexOf (a @ c # b) c = Some (length a)"
proof (induction a)
  case Nil
  then have "lastIndexOf b c = None" by (simp add: lastIndexOf_None)
  then show ?case by simp
next
  case (Cons x a) then show ?case by simp
qed

lemma lastIndexOf_Some:
  "lastIndexOf s c = Some i \<Longrightarrow> s = take i s @ c # drop (Suc i) s \<and> c \<notin> set (drop (Suc i) s)"
proof (induction s arbitrary: i)
  case Nil then show ?case by simp
next
  case (Cons x xs)
  show ?case
  proof (cases "lastIndexOf xs c")
    case None
    with Cons.prems have "x = c" "i = 0" by (auto split: if_splits)
    moreover from None have "c \<notin> set xs" by (simp add: lastIndexOf_None)
    ultimately show ?thesis by simp
  next
    case (Some j)
    with Cons.prems have i: "i = Suc j" by simp
    from Cons.IH[OF Some] show ?thesis by (simp add: i)
  qed
qed


lemma indexOf_None: "indexOf s c = None \<longleftrightarrow> c \<notin> set s"
  by (induction s) auto

lemma failure_not_success: "\<not> ParseResult.success (failure lnk n m)"
  by (simp add: failure_def)

lemma vlessFromParams_success:
  "vlessFromParams lnk n tg srv p uid qs = Inr r \<Longrightarrow> ParseResult.success r \<Longrightarrow>
   \<exists>ob. ParseResult.outbound r = Some ob \<and> server_port ob = p \<and> VlessOutbound.uuid ob = uid \<and> VlessOutbound.server ob = srv"
  unfolding vlessFromParams_def Let_def
  by (auto simp: failure_def split: if_splits sum.splits)

lemma vlessTry_success:
  assumes "vlessTry lnk n d t = Inr r" "ParseResult.success r"
  shows "\<exists>ob atIndex. ParseResult.outbound r = Some ob \<and> 1 \<le> server_port ob \<and> server_port ob \<le> 65535 \<and>
           lastIndexOf (mainPart t) (cu CHR ''@'') = Some atIndex \<and>
           VlessOutbound.uuid ob = slice (mainPart t) 0 atIndex"
  using assms unfolding vlessTry_def Let_def
  by (auto simp: failure_def split: option.splits if_splits sum.splits number.splits prod.splits
      dest!: vlessFromParams_success)

lemma parseVlessLink_success:
  assumes "ParseResult.success (parseVlessLink lnk n d)"
  shows "\<exists>ob atIndex. ParseResult.outbound (parseVlessLink lnk n d) = Some ob \<and> 1 \<le> server_port ob \<and> server_port ob \<le> 65535 \<and>
           lastIndexOf (mainPart (trim lnk)) (cu CHR ''@'') = Some atIndex \<and>
           VlessOutbound.uuid ob = slice (mainPart (trim lnk)) 0 atIndex"
proof (cases "vlessTry lnk n d (trim lnk)")
  case (Inl m)
  with assms show ?thesis by (auto simp: parseVlessLink_def Let_def failure_def split: if_splits)
next
  case (Inr r)
  with assms have "ParseResult.success r" "parseVlessLink lnk n d = r"
    by (auto simp: parseVlessLink_def Let_def failure_def split: if_splits)
  with vlessTry_success[OF Inr] show ?thesis by simp
qed


lemma fragmentDecodes_linkTag:
  "fragmentDecodes t \<Longrightarrow> \<exists>tg. linkTag t n d = Some tg"
  by (auto simp: fragmentDecodes_def linkTag_def split: option.splits)
















lemma parseVlessLink_missing_at:
  assumes sw: "startsWith (trim lnk) (str ''vless://'')" and fd: "fragmentDecodes (trim lnk)"
    and na: "cu CHR ''@'' \<notin> set (mainPart (trim lnk))"
  shows "parseVlessLink lnk n d = failure lnk n (str ''Invalid format: missing @ separator'')"
proof -
  from fragmentDecodes_linkTag[OF fd] obtain tg where tg: "linkTag (trim lnk) n d = Some tg" by blast
  have li: "lastIndexOf (mainPart (trim lnk)) (cu CHR ''@'') = None"
    using na by (simp add: lastIndexOf_None)
  have ne: "trim lnk \<noteq> []" using sw by (auto simp: startsWith_def str_def)
  have "vlessTry lnk n d (trim lnk) = Inr (failure lnk n (str ''Invalid format: missing @ separator''))"
    by (simp add: vlessTry_def tg li)
  then show ?thesis using sw ne by (simp add: parseVlessLink_def Let_def)
qed

lemma parseVlessLink_short_uuid:
  assumes sw: "startsWith (trim lnk) (str ''vless://'')" and fd: "fragmentDecodes (trim lnk)"
    and mp: "mainPart (trim lnk) = uid @ cu CHR ''@'' # rest" and na: "cu CHR ''@'' \<notin> set rest"
    and len: "length uid < 32"
  shows "parseVlessLink lnk n d = failure lnk n (str ''Invalid UUID format'')"
proof -
  from fragmentDecodes_linkTag[OF fd] obtain tg where tg: "linkTag (trim lnk) n d = Some tg" by blast
  have li: "lastIndexOf (mainPart (trim lnk)) (cu CHR ''@'') = Some (length uid)"
    unfolding mp using na by (rule lastIndexOf_append)
  have u: "slice (mainPart (trim lnk)) 0 (length uid) = uid" by (simp add: mp slice_def)
  have ne: "trim lnk \<noteq> []" using sw by (auto simp: startsWith_def str_def)
  have "vlessTry lnk n d (trim lnk) = Inr (failure lnk n (str ''Invalid UUID format''))"
    unfolding vlessTry_def
    by (simp only: tg li u Let_def option.case) (simp add: len)
  then show ?thesis using sw ne by (simp add: parseVlessLink_def Let_def)
qed

lemma parseVlessLink_uuid:
  assumes "ParseResult.success (parseVlessLink lnk n d)"
  shows "\<exists>ob rest. ParseResult.outbound (parseVlessLink lnk n d) = Some ob \<and>
           mainPart (trim lnk) = VlessOutbound.uuid ob @ cu CHR ''@'' # rest \<and> cu CHR ''@'' \<notin> set rest"
proof -
  from parseVlessLink_success[OF assms] obtain ob atIndex where
    ob: "ParseResult.outbound (parseVlessLink lnk n d) = Some ob"
    and li: "lastIndexOf (mainPart (trim lnk)) (cu CHR ''@'') = Some atIndex"
    and u: "VlessOutbound.uuid ob = slice (mainPart (trim lnk)) 0 atIndex" by blast
  from lastIndexOf_Some[OF li]
  have "mainPart (trim lnk) = VlessOutbound.uuid ob @ cu CHR ''@'' # drop (Suc atIndex) (mainPart (trim lnk))"
    "cu CHR ''@'' \<notin> set (drop (Suc atIndex) (mainPart (trim lnk)))"
    by (simp_all add: u slice_def)
  with ob show ?thesis by blast
qed

text \<open>
  C2. An \<open>@\<close> inside the query string is taken as the separator: the decoder looks for the
  last \<open>@\<close> of the whole text before the fragment, not of the text before the \<open>?\<close>. The
  first link below is decoded to a descriptor whose credential runs past the \<open>?\<close> and
  whose server is the text after the \<open>@\<close> of the query string, and its transport is lost.
  The second link, well formed with the path \<open>/@channel\<close>, is refused with
  \<open>Missing port\<close>. A link without any \<open>@\<close> is refused with
  \<open>Invalid format: missing @ separator\<close> (in general: \<open>parseVlessLink_missing_at\<close>).
\<close>

theorem parseVlessLink_splits_inside_query:
  "ParseResult.success (parseVlessLink
      (str ''vless://11111111-1111-1111-1111-111111111111@example.com:443?type=ws&path=/x@other.example:8443'') 1 None) = True \<and>
   ParseResult.outbound (parseVlessLink
      (str ''vless://11111111-1111-1111-1111-111111111111@example.com:443?type=ws&path=/x@other.example:8443'') 1 None) =
     Some \<lparr>VlessOutbound.type = str ''vless'', VlessOutbound.tag = str ''proxy-p1'',
            VlessOutbound.server = str ''other.example'', VlessOutbound.server_port = 8443,
            VlessOutbound.uuid = str ''11111111-1111-1111-1111-111111111111@example.com:443?type=ws&path=/x'',
            VlessOutbound.flow = None, VlessOutbound.tls = None, VlessOutbound.transport = None\<rparr> \<and>
   cu CHR ''?'' \<in> set (str ''11111111-1111-1111-1111-111111111111@example.com:443?type=ws&path=/x'') \<and>
   ParseResult.success (parseVlessLink
      (str ''vless://11111111-1111-1111-1111-111111111111@example.com:443?type=ws&path=/@channel'') 1 None) = False \<and>
   ParseResult.error (parseVlessLink
      (str ''vless://11111111-1111-1111-1111-111111111111@example.com:443?type=ws&path=/@channel'') 1 None) =
     Some (str ''Missing port'') \<and>
   ParseResult.success (parseVlessLink (str ''vless://example.com:443'') 1 None) = False \<and>
   ParseResult.error (parseVlessLink (str ''vless://example.com:443'') 1 None) =
     Some (str ''Invalid format: missing @ separator'')"
  by code_simp

subsection \<open>The assembler\<close>

lemma buildConfig_endpoints:
  "SingBoxConfig.endpoints (buildConfig D I opts) =
     (case BuildOptions.endpoints opts of None \<Rightarrow> None | Some eps \<Rightarrow> if eps = [] then None else Some eps)"
  by (auto simp: buildConfig_def Let_def split: option.splits)

text \<open>
  C8. With no outbound and no endpoint, \<open>buildConfig\<close> emits the selector outbound
  (\<open>type\<close> \<open>selector\<close>, \<open>tag\<close> \<open>proxy\<close>) whose \<open>outbounds\<close> are \<open>["direct"]\<close> and whose
  \<open>default\<close> is \<open>direct\<close>, then the direct outbound, and no \<open>endpoints\<close> key. With two
  outbounds tagged \<open>a\<close> and \<open>b\<close> and no endpoint it emits, after the two outbounds, the
  selector whose \<open>outbounds\<close> are \<open>["auto", a, b]\<close> and whose \<open>default\<close> is \<open>auto\<close>, the
  urltest outbound tagged \<open>auto\<close> whose \<open>outbounds\<close> are exactly \<open>[a, b]\<close>, then the direct
  outbound, and still no \<open>endpoints\<close> key. The \<open>endpoints\<close> key is present exactly when at
  least one endpoint was supplied, and then holds the endpoints supplied.
\<close>

theorem buildConfig_selector_policy:
  "(BuildOptions.outbounds opts = [] \<and>
    (BuildOptions.endpoints opts = None \<or> BuildOptions.endpoints opts = Some []) \<longrightarrow>
      SingBoxConfig.outbounds (buildConfig D I opts) =
        [\<lparr>Outbound.type = str ''selector'', Outbound.tag = str ''proxy'',
          Outbound.otherKeys =
            [(str ''outbounds'', JArray [JString (str ''direct'')]),
             (str ''default'', JString (str ''direct''))]\<rparr>,
         \<lparr>Outbound.type = str ''direct'', Outbound.tag = str ''direct'', Outbound.otherKeys = []\<rparr>] \<and>
      SingBoxConfig.endpoints (buildConfig D I opts) = None) \<and>
   (BuildOptions.outbounds opts = [o1, o2] \<and> Outbound.tag o1 = a \<and> Outbound.tag o2 = b \<and>
    (BuildOptions.endpoints opts = None \<or> BuildOptions.endpoints opts = Some []) \<longrightarrow>
      SingBoxConfig.outbounds (buildConfig D I opts) =
        [o1, o2,
         \<lparr>Outbound.type = str ''selector'', Outbound.tag = str ''proxy'',
          Outbound.otherKeys =
            [(str ''outbounds'', JArray [JString (str ''auto''), JString a, JString b]),
             (str ''default'', JString (str ''auto''))]\<rparr>,
         \<lparr>Outbound.type = str ''urltest'', Outbound.tag = str ''auto'',
          Outbound.otherKeys =
            [(str ''outbounds'', JArray [JString a, JString b]),
             (str ''url'', JString (str ''https://www.gstatic.com/generate_204'')),
             (str ''interval'', JString (str ''5m'')),
             (str ''tolerance'', JNumber 50)]\<rparr>,
         \<lparr>Outbound.type = str ''direct'', Outbound.tag = str ''direct'', Outbound.otherKeys = []\<rparr>] \<and>
      SingBoxConfig.endpoints (buildConfig D I opts) = None) \<and>
   ((SingBoxConfig.endpoints (buildConfig D I opts) \<noteq> None) =
      (\<exists>eps. BuildOptions.endpoints opts = Some eps \<and> eps \<noteq> [])) \<and>
   (\<forall>eps. BuildOptions.endpoints opts = Some eps \<and> eps \<noteq> [] \<longrightarrow>
      SingBoxConfig.endpoints (buildConfig D I opts) = Some eps)"
proof -
  have c1: "BuildOptions.outbounds opts = [] \<and>
    (BuildOptions.endpoints opts = None \<or> BuildOptions.endpoints opts = Some []) \<longrightarrow>
      SingBoxConfig.outbounds (buildConfig D I opts) =
        [\<lparr>Outbound.type = str ''selector'', Outbound.tag = str ''proxy'',
          Outbound.otherKeys =
            [(str ''outbounds'', JArray [JString (str ''direct'')]),
             (str ''default'', JString (str ''direct''))]\<rparr>,
         \<lparr>Outbound.type = str ''direct'', Outbound.tag = str ''direct'', Outbound.otherKeys = []\<rparr>] \<and>
      SingBoxConfig.endpoints (buildConfig D I opts) = None"
    by (auto simp: buildConfig_def Let_def selectorOutbound_def urltestOutbound_def directOutbound_def
        split: option.splits)
  have c2: "BuildOptions.outbounds opts = [o1, o2] \<and> Outbound.tag o1 = a \<and> Outbound.tag o2 = b \<and>
    (BuildOptions.endpoints opts = None \<or> BuildOptions.endpoints opts = Some []) \<longrightarrow>
      SingBoxConfig.outbounds (buildConfig D I opts) =
        [o1, o2,
         \<lparr>Outbound.type = str ''selector'', Outbound.tag = str ''proxy'',
          Outbound.otherKeys =
            [(str ''outbounds'', JArray [JString (str ''auto''), JString a, JString b]),
             (str ''default'', JString (str ''auto''))]\<rparr>,
         \<lparr>Outbound.type = str ''urltest'', Outbound.tag = str ''auto'',
          Outbound.otherKeys =
            [(str ''outbounds'', JArray [JString a, JString b]),
             (str ''url'', JString (str ''https://www.gstatic.com/generate_204'')),
             (str ''interval'', JString (str ''5m'')),
             (str ''tolerance'', JNumber 50)]\<rparr>,
         \<lparr>Outbound.type = str ''direct'', Outbound.tag = str ''direct'', Outbound.otherKeys = []\<rparr>] \<and>
      SingBoxConfig.endpoints (buildConfig D I opts) = None"
    by (auto simp: buildConfig_def Let_def selectorOutbound_def urltestOutbound_def directOutbound_def
        split: option.splits)
  have c3: "(SingBoxConfig.endpoints (buildConfig D I opts) \<noteq> None) =
      (\<exists>eps. BuildOptions.endpoints opts = Some eps \<and> eps \<noteq> [])"
    by (auto simp: buildConfig_endpoints split: option.splits)
  have c4: "\<forall>eps. BuildOptions.endpoints opts = Some eps \<and> eps \<noteq> [] \<longrightarrow>
      SingBoxConfig.endpoints (buildConfig D I opts) = Some eps"
    by (auto simp: buildConfig_endpoints)
  show ?thesis
    apply (rule conjI, rule c1)
    apply (rule conjI, rule c2)
    apply (rule conjI, rule c3)
    apply (rule c4)
    done
qed

theorem buildConfig_selector_policy_witness:
  "(SingBoxConfig.outbounds
     (buildConfig (\<lambda>p::unit. ()) (\<lambda>p::unit. ())
        \<lparr>BuildOptions.outbounds = 
           [\<lparr>Outbound.type = str ''vless'', Outbound.tag = str ''a'', Outbound.otherKeys = []\<rparr>,
            \<lparr>Outbound.type = str ''vless'', Outbound.tag = str ''b'', Outbound.otherKeys = []\<rparr>],
         BuildOptions.endpoints = None, BuildOptions.dnsPreset = (),
         BuildOptions.inboundPreset = ()\<rparr>) =
     [\<lparr>Outbound.type = str ''vless'', Outbound.tag = str ''a'', Outbound.otherKeys = []\<rparr>,
      \<lparr>Outbound.type = str ''vless'', Outbound.tag = str ''b'', Outbound.otherKeys = []\<rparr>,
      \<lparr>Outbound.type = str ''selector'', Outbound.tag = str ''proxy'',
       Outbound.otherKeys =
         [(str ''outbounds'', JArray [JString (str ''auto''), JString (str ''a''), JString (str ''b'')]),
          (str ''default'', JString (str ''auto''))]\<rparr>,
      \<lparr>Outbound.type = str ''urltest'', Outbound.tag = str ''auto'',
       Outbound.otherKeys =
         [(str ''outbounds'', JArray [JString (str ''a''), JString (str ''b'')]),
          (str ''url'', JString (str ''https://www.gstatic.com/generate_204'')),
          (str ''interval'', JString (str ''5m'')),
          (str ''tolerance'', JNumber 50)]\<rparr>,
      \<lparr>Outbound.type = str ''direct'', Outbound.tag = str ''direct'', Outbound.otherKeys = []\<rparr>] \<and>
   SingBoxConfig.endpoints
     (buildConfig (\<lambda>p::unit. ()) (\<lambda>p::unit. ())
        \<lparr>BuildOptions.outbounds = 
           [\<lparr>Outbound.type = str ''vless'', Outbound.tag = str ''a'', Outbound.otherKeys = []\<rparr>,
            \<lparr>Outbound.type = str ''vless'', Outbound.tag = str ''b'', Outbound.otherKeys = []\<rparr>],
         BuildOptions.endpoints = None, BuildOptions.dnsPreset = (),
         BuildOptions.inboundPreset = ()\<rparr>) = None) \<and>
   (SingBoxConfig.outbounds
     (buildConfig (\<lambda>p::unit. ()) (\<lambda>p::unit. ())
        \<lparr>BuildOptions.outbounds = [],
         BuildOptions.endpoints = Some [], BuildOptions.dnsPreset = (),
         BuildOptions.inboundPreset = ()\<rparr>) =
     [\<lparr>Outbound.type = str ''selector'', Outbound.tag = str ''proxy'',
       Outbound.otherKeys =
         [(str ''outbounds'', JArray [JString (str ''direct'')]),
          (str ''default'', JString (str ''direct''))]\<rparr>,
      \<lparr>Outbound.type = str ''direct'', Outbound.tag = str ''direct'', Outbound.otherKeys = []\<rparr>] \<and>
   SingBoxConfig.endpoints
     (buildConfig (\<lambda>p::unit. ()) (\<lambda>p::unit. ())
        \<lparr>BuildOptions.outbounds = [],
         BuildOptions.endpoints = Some [], BuildOptions.dnsPreset = (),
         BuildOptions.inboundPreset = ()\<rparr>) = None)"
proof -
  note t = buildConfig_selector_policy
  have r1: "SingBoxConfig.outbounds
     (buildConfig (\<lambda>p::unit. ()) (\<lambda>p::unit. ())
        \<lparr>BuildOptions.outbounds = 
           [\<lparr>Outbound.type = str ''vless'', Outbound.tag = str ''a'', Outbound.otherKeys = []\<rparr>,
            \<lparr>Outbound.type = str ''vless'', Outbound.tag = str ''b'', Outbound.otherKeys = []\<rparr>],
         BuildOptions.endpoints = None, BuildOptions.dnsPreset = (),
         BuildOptions.inboundPreset = ()\<rparr>) =
     [\<lparr>Outbound.type = str ''vless'', Outbound.tag = str ''a'', Outbound.otherKeys = []\<rparr>,
      \<lparr>Outbound.type = str ''vless'', Outbound.tag = str ''b'', Outbound.otherKeys = []\<rparr>,
      \<lparr>Outbound.type = str ''selector'', Outbound.tag = str ''proxy'',
       Outbound.otherKeys =
         [(str ''outbounds'', JArray [JString (str ''auto''), JString (str ''a''), JString (str ''b'')]),
          (str ''default'', JString (str ''auto''))]\<rparr>,
      \<lparr>Outbound.type = str ''urltest'', Outbound.tag = str ''auto'',
       Outbound.otherKeys =
         [(str ''outbounds'', JArray [JString (str ''a''), JString (str ''b'')]),
          (str ''url'', JString (str ''https://www.gstatic.com/generate_204'')),
          (str ''interval'', JString (str ''5m'')),
          (str ''tolerance'', JNumber 50)]\<rparr>,
      \<lparr>Outbound.type = str ''direct'', Outbound.tag = str ''direct'', Outbound.otherKeys = []\<rparr>] \<and>
   SingBoxConfig.endpoints
     (buildConfig (\<lambda>p::unit. ()) (\<lambda>p::unit. ())
        \<lparr>BuildOptions.outbounds = 
           [\<lparr>Outbound.type = str ''vless'', Outbound.tag = str ''a'', Outbound.otherKeys = []\<rparr>,
            \<lparr>Outbound.type = str ''vless'', Outbound.tag = str ''b'', Outbound.otherKeys = []\<rparr>],
         BuildOptions.endpoints = None, BuildOptions.dnsPreset = (),
         BuildOptions.inboundPreset = ()\<rparr>) = None"
    by (rule t[THEN conjunct2, THEN conjunct1, THEN mp]) simp
  have r2: "SingBoxConfig.outbounds
     (buildConfig (\<lambda>p::unit. ()) (\<lambda>p::unit. ())
        \<lparr>BuildOptions.outbounds = [],
         BuildOptions.endpoints = Some [], BuildOptions.dnsPreset = (),
         BuildOptions.inboundPreset = ()\<rparr>) =
     [\<lparr>Outbound.type = str ''selector'', Outbound.tag = str ''proxy'',
       Outbound.otherKeys =
         [(str ''outbounds'', JArray [JString (str ''direct'')]),
          (str ''default'', JString (str ''direct''))]\<rparr>,
      \<lparr>Outbound.type = str ''direct'', Outbound.tag = str ''direct'', Outbound.otherKeys = []\<rparr>] \<and>
   SingBoxConfig.endpoints
     (buildConfig (\<lambda>p::unit. ()) (\<lambda>p::unit. ())
        \<lparr>BuildOptions.outbounds = [],
         BuildOptions.endpoints = Some [], BuildOptions.dnsPreset = (),
         BuildOptions.inboundPreset = ()\<rparr>) = None"
    by (rule t[THEN conjunct1, THEN mp]) simp
  show ?thesis by (rule conjI[OF r1 r2])
qed

subsection \<open>Reality without a public key\<close>

lemma vlessTlsConfig_reality_requires_pbk:
  "present (params_get params ''pbk'') = None \<Longrightarrow>
   vlessTlsConfig params (str ''reality'') srv = Inl (str ''Reality requires public key (pbk)'')"
  by (simp add: vlessTlsConfig_def Let_def)

lemma reality_valid_security: "str ''reality'' \<in> set VALID_SECURITY"
  by (simp add: VALID_SECURITY_def)

lemma orElse_reality: "orElse (Some (str ''reality'')) dflt = str ''reality''"
  by (simp add: orElse_def str_def)

lemma vlessFromParams_reality_requires_pbk:
  assumes "params_get (newURLSearchParams (orElse qs [])) ''security'' = Some (str ''reality'')"
    and "present (params_get (newURLSearchParams (orElse qs [])) ''pbk'') = None"
  shows "vlessFromParams lnk n tg srv p uid qs =
           Inr (failure lnk n (str ''Reality requires public key (pbk)''))"
  unfolding vlessFromParams_def Let_def
  by (simp only: assms(1) orElse_reality reality_valid_security
        vlessTlsConfig_reality_requires_pbk[OF assms(2)])
     simp

lemma buildTlsConfig_reality_omitted:
  "security stream = Some (str ''reality'') \<Longrightarrow> realitySettings stream = Some rs \<Longrightarrow>
   present (publicKey rs) = None \<Longrightarrow> TlsConfig.reality (buildTlsConfig stream) = None"
  by (simp add: buildTlsConfig_def Let_def)

text \<open>
  C1. The client-config decoder does not reject an entry with reality security and no
  public key. The document below has one \<open>vless\<close> outbound whose \<open>streamSettings\<close> say
  \<open>security: "reality"\<close> and whose \<open>realitySettings\<close> hold a server name and a short id but
  no \<open>publicKey\<close>: \<open>parseAmneziaConfig\<close> succeeds, records no error, and returns an outbound
  with TLS enabled and no reality block. The link decoder refuses the same combination
  with \<open>Reality requires public key (pbk)\<close> (\<open>vlessFromParams_reality_requires_pbk\<close>).
\<close>

theorem amnezia_reality_without_public_key:
  "parseAmneziaConfig
     (Inr \<lparr>XRayConfig.outbounds = Some
        [\<lparr>XRayOutbound.protocol = str ''vless'', XRayOutbound.tag = None,
          XRayOutbound.settings = Some \<lparr>XRaySettings.vnext = Some
            [\<lparr>XRayVnext.address = str ''example.com'', XRayVnext.port = 443,
              XRayVnext.users =
                [\<lparr>XRayUser.user_id = str ''11111111-1111-1111-1111-111111111111'',
                  XRayUser.encryption = Some (str ''none''), XRayUser.flow = None\<rparr>]\<rparr>]\<rparr>,
          XRayOutbound.streamSettings = Some
            \<lparr>XRayStreamSettings.network = Some (str ''tcp''),
             XRayStreamSettings.security = Some (str ''reality''),
             XRayStreamSettings.realitySettings = Some
               \<lparr>XRayRealitySettings.fingerprint = None, XRayRealitySettings.publicKey = None,
                XRayRealitySettings.serverName = Some (str ''www.example.org''),
                XRayRealitySettings.shortId = Some (str ''abc''),
                XRayRealitySettings.spiderX = None\<rparr>,
             XRayStreamSettings.tlsSettings = None, XRayStreamSettings.wsSettings = None,
             XRayStreamSettings.grpcSettings = None, XRayStreamSettings.httpSettings = None\<rparr>\<rparr>]\<rparr>) =
     \<lparr>AmneziaParseResult.success = True,
      AmneziaParseResult.outbounds =
        [\<lparr>VlessOutbound.type = str ''vless'', VlessOutbound.tag = str ''proxy-p1'',
          VlessOutbound.server = str ''example.com'', VlessOutbound.server_port = 443,
          VlessOutbound.uuid = str ''11111111-1111-1111-1111-111111111111'', VlessOutbound.flow = None,
          VlessOutbound.tls = Some
            \<lparr>TlsConfig.enabled = True, TlsConfig.server_name = Some (str ''www.example.org''),
             TlsConfig.insecure = None, TlsConfig.alpn = None, TlsConfig.utls = None,
             TlsConfig.reality = None\<rparr>,
          VlessOutbound.transport = None\<rparr>],
      AmneziaParseResult.errors = []\<rparr>"
  by code_simp

end
